theory Spec2Isabelle
  imports Complex_Main
begin

section \<open>Python values used by the URL helpers\<close>

text \<open>
  Strings are lists of 8-bit characters. The URL helpers only inspect ASCII
  delimiters, digits and percent escapes, so this is Python's behaviour on ASCII text;
  a percent escape is decoded to the single character with that code (Python decodes
  the escaped bytes as UTF-8).
\<close>

definition ord :: "char \<Rightarrow> nat" where
  "ord c = of_char c"

definition is_digit :: "char \<Rightarrow> bool" where
  "is_digit c = (48 \<le> ord c \<and> ord c \<le> 57)"

definition digit_val :: "char \<Rightarrow> nat" where
  "digit_val c = ord c - 48"

definition digit_char :: "nat \<Rightarrow> char" where
  "digit_char d = char_of (48 + d)"

text \<open>
  \<open>str(n)\<close> for a Python integer: decimal digits, a minus sign when negative. Python's
  limit on the number of digits of a conversion (4300 by default) is not modelled.
\<close>

fun str_nat :: "nat \<Rightarrow> string" where
  "str_nat n = (if n < 10 then [digit_char n] else str_nat (n div 10) @ [digit_char (n mod 10)])"

declare str_nat.simps [simp del]

definition str_int :: "int \<Rightarrow> string" where
  "str_int i = (if i < 0 then CHR ''-'' # str_nat (nat (- i)) else str_nat (nat i))"

text \<open>
  \<open>int(s)\<close> for a Python string, base 10: surrounding whitespace is stripped, one sign is
  allowed, then digits, with single underscores allowed between digits. \<open>None\<close> stands for
  \<open>ValueError\<close>.
\<close>

definition is_space :: "char \<Rightarrow> bool" where
  "is_space c = (ord c \<in> {9, 10, 11, 12, 13, 28, 29, 30, 31, 32})"

definition strip :: "string \<Rightarrow> string" where
  "strip s = rev (dropWhile is_space (rev (dropWhile is_space s)))"

fun parse_digits :: "nat \<Rightarrow> string \<Rightarrow> nat option" where
  "parse_digits acc [] = Some acc"
| "parse_digits acc [c] = (if is_digit c then Some (10 * acc + digit_val c) else None)"
| "parse_digits acc (c # d # cs) =
     (if is_digit c then
        (if d = CHR ''_'' then
           (case cs of [] \<Rightarrow> None
            | e # es \<Rightarrow> if is_digit e then parse_digits (10 * acc + digit_val c) cs else None)
         else parse_digits (10 * acc + digit_val c) (d # cs))
      else None)"

definition py_int :: "string \<Rightarrow> int option" where
  "py_int s =
     (let t = strip s;
          neg = (case t of [] \<Rightarrow> False | c # _ \<Rightarrow> c = CHR ''-'');
          body = (case t of [] \<Rightarrow> [] | c # cs \<Rightarrow> if c = CHR ''-'' \<or> c = CHR ''+'' then cs else t)
      in if body = [] then None
         else (case parse_digits 0 body of
                 None \<Rightarrow> None
               | Some m \<Rightarrow> Some (if neg then - int m else int m)))"

section \<open>The query-string functions of \<open>urllib.parse\<close>\<close>

text \<open>
  \<open>quote_plus\<close> with \<open>safe=''\<close>: letters, digits and \<open>_.-~\<close> stay, a space becomes \<open>+\<close>,
  every other character becomes \<open>%XX\<close> with upper-case hex digits.
\<close>

definition is_alnum :: "char \<Rightarrow> bool" where
  "is_alnum c = ((48 \<le> ord c \<and> ord c \<le> 57) \<or> (65 \<le> ord c \<and> ord c \<le> 90) \<or> (97 \<le> ord c \<and> ord c \<le> 122))"

definition always_safe :: "char \<Rightarrow> bool" where
  "always_safe c = (is_alnum c \<or> c = CHR ''_'' \<or> c = CHR ''.'' \<or> c = CHR ''-'' \<or> c = CHR ''~'')"

definition hex_digit :: "nat \<Rightarrow> char" where
  "hex_digit d = (if d < 10 then char_of (48 + d) else char_of (55 + d))"

definition quote_char :: "char \<Rightarrow> string" where
  "quote_char c =
     (if always_safe c then [c]
      else if c = CHR '' '' then ''+''
      else [CHR ''%'', hex_digit (ord c div 16), hex_digit (ord c mod 16)])"

definition quote_plus :: "string \<Rightarrow> string" where
  "quote_plus s = concat (map quote_char s)"

text \<open>
  \<open>unquote\<close>: a \<open>%\<close> followed by two hex digits (either case) is replaced by the
  character with that code; any other \<open>%\<close> is kept as it is.
\<close>

definition hex_val :: "char \<Rightarrow> nat option" where
  "hex_val c =
     (if 48 \<le> ord c \<and> ord c \<le> 57 then Some (ord c - 48)
      else if 65 \<le> ord c \<and> ord c \<le> 70 then Some (ord c - 55)
      else if 97 \<le> ord c \<and> ord c \<le> 102 then Some (ord c - 87)
      else None)"

fun unquote :: "string \<Rightarrow> string" where
  "unquote [] = []"
| "unquote [c] = [c]"
| "unquote [c, a] = c # unquote [a]"
| "unquote (c # a # b # rest) =
     (if c = CHR ''%'' then
        (case (hex_val a, hex_val b) of
           (Some x, Some y) \<Rightarrow> char_of (16 * x + y) # unquote rest
         | _ \<Rightarrow> c # unquote (a # b # rest))
      else c # unquote (a # b # rest))"

definition replace_plus :: "string \<Rightarrow> string" where
  "replace_plus s = map (\<lambda>c. if c = CHR ''+'' then CHR '' '' else c) s"

text \<open>\<open>s.split(sep)\<close> and \<open>s.split(sep, 1)\<close> for a one-character separator.\<close>

fun split_on :: "char \<Rightarrow> string \<Rightarrow> string list" where
  "split_on sep [] = [[]]"
| "split_on sep (c # cs) =
     (if c = sep then [] # split_on sep cs
      else (case split_on sep cs of [] \<Rightarrow> [[c]] | p # ps \<Rightarrow> (c # p) # ps))"

definition split_once :: "char \<Rightarrow> string \<Rightarrow> string list" where
  "split_once sep s =
     (if sep \<in> set s then [takeWhile (\<lambda>c. c \<noteq> sep) s, tl (dropWhile (\<lambda>c. c \<noteq> sep) s)] else [s])"

text \<open>
  \<open>parse_qsl(qs, keep_blank_values)\<close> with the default separator \<open>&\<close> and
  \<open>strict_parsing=False\<close>: empty fields are skipped; a field without \<open>=\<close> gets an empty
  value when blank values are kept and is dropped otherwise; name and value are
  decoded (\<open>+\<close> to space, then percent escapes).
\<close>

definition parse_field :: "bool \<Rightarrow> string \<Rightarrow> (string \<times> string) list" where
  "parse_field keep_blank_values name_value =
     (if name_value = [] then []
      else (case split_once CHR ''='' name_value of
              [n, v] \<Rightarrow>
                if v \<noteq> [] \<or> keep_blank_values
                then [(unquote (replace_plus n), unquote (replace_plus v))] else []
            | _ \<Rightarrow>
                if keep_blank_values
                then [(unquote (replace_plus name_value), unquote (replace_plus []))] else []))"

definition parse_qsl :: "string \<Rightarrow> bool \<Rightarrow> (string \<times> string) list" where
  "parse_qsl qs keep_blank_values = concat (map (parse_field keep_blank_values) (split_on CHR ''&'' qs))"

text \<open>
  The dictionary \<open>parse_qs\<close> returns maps each name to the list of its values, in the
  order of first occurrence of the names (Python dictionaries keep insertion order).
  Every list in it has at least one element, so a value list is kept as its first
  element and the rest; \<open>query.get(k)[0]\<close> is then the first component.
\<close>

type_synonym qvalues = "string \<times> string list"
type_synonym qdict = "(string \<times> qvalues) list"

fun dict_append :: "qdict \<Rightarrow> string \<Rightarrow> string \<Rightarrow> qdict" where
  "dict_append [] k v = [(k, (v, []))]"
| "dict_append ((k', (x, xs)) # d) k v =
     (if k' = k then (k', (x, xs @ [v])) # d else (k', (x, xs)) # dict_append d k v)"

definition parse_qs :: "string \<Rightarrow> bool \<Rightarrow> qdict" where
  "parse_qs qs keep_blank_values =
     foldl (\<lambda>d (name, v). dict_append d name v) [] (parse_qsl qs keep_blank_values)"

definition dict_get :: "qdict \<Rightarrow> string \<Rightarrow> qvalues option" where
  "dict_get d k = map_of d k"

text \<open>\<open>d[k] = vs\<close>: an existing key keeps its position, a new key goes last.\<close>

fun dict_set :: "qdict \<Rightarrow> string \<Rightarrow> qvalues \<Rightarrow> qdict" where
  "dict_set [] k vs = [(k, vs)]"
| "dict_set ((k', ws) # d) k vs =
     (if k' = k then (k', vs) # d else (k', ws) # dict_set d k vs)"

text \<open>\<open>urlencode(query, doseq=True)\<close>: one \<open>name=value\<close> field per value, joined by \<open>&\<close>.\<close>

fun join :: "char \<Rightarrow> string list \<Rightarrow> string" where
  "join sep [] = []"
| "join sep [x] = x"
| "join sep (x # y # ys) = x @ sep # join sep (y # ys)"

definition encode_item :: "string \<times> qvalues \<Rightarrow> string list" where
  "encode_item kv =
     (case kv of (k, (v, vs)) \<Rightarrow> map (\<lambda>elt. quote_plus k @ CHR ''='' # quote_plus elt) (v # vs))"

definition urlencode :: "qdict \<Rightarrow> string" where
  "urlencode d = join CHR ''&'' (concat (map encode_item d))"

section \<open>Splitting a URL and putting it together again\<close>

text \<open>
  \<open>urlsplit\<close> and \<open>urlunsplit\<close> belong to the Python standard library, and their
  treatment of unusual URLs differs between Python versions. The helpers below take
  the two functions as a parameter \<open>L\<close>; what a theorem needs of them is stated as a
  hypothesis of that theorem. \<open>urlsplit\<close> is total here: the \<open>ValueError\<close> the library
  raises on a malformed bracketed host is not modelled.
\<close>

record split_result =
  scheme :: string
  netloc :: string
  path :: string
  query :: string
  fragment :: string

record urllib =
  urlsplit :: "string \<Rightarrow> split_result"
  urlunsplit :: "split_result \<Rightarrow> string"

text \<open>
  A reference instance: the generic split \<open>scheme://netloc/path?query#fragment\<close> that
  every version of the library performs on ordinary URLs (leading and embedded control
  characters, bracketed hosts and the table of netloc-using schemes are left out).
\<close>

definition is_alpha :: "char \<Rightarrow> bool" where
  "is_alpha c = ((65 \<le> ord c \<and> ord c \<le> 90) \<or> (97 \<le> ord c \<and> ord c \<le> 122))"

definition is_scheme_char :: "char \<Rightarrow> bool" where
  "is_scheme_char c = (is_alnum c \<or> c = CHR ''+'' \<or> c = CHR ''-'' \<or> c = CHR ''.'')"

definition lower_char :: "char \<Rightarrow> char" where
  "lower_char c = (if 65 \<le> ord c \<and> ord c \<le> 90 then char_of (ord c + 32) else c)"

definition urlsplit_generic :: "string \<Rightarrow> split_result" where
  "urlsplit_generic url =
     (let pre = takeWhile (\<lambda>c. c \<noteq> CHR '':'') url;
          has_scheme = (CHR '':'' \<in> set url \<and> (case pre of [] \<Rightarrow> False | c # _ \<Rightarrow> is_alpha c) \<and> list_all is_scheme_char pre);
          sch = (if has_scheme then map lower_char pre else []);
          url1 = (if has_scheme then tl (dropWhile (\<lambda>c. c \<noteq> CHR '':'') url) else url);
          has_netloc = (take 2 url1 = ''//'');
          delim = (\<lambda>c. c = CHR ''/'' \<or> c = CHR ''?'' \<or> c = CHR ''#'');
          nl = (if has_netloc then takeWhile (\<lambda>c. \<not> delim c) (drop 2 url1) else []);
          url2 = (if has_netloc then dropWhile (\<lambda>c. \<not> delim c) (drop 2 url1) else url1);
          frag = (if CHR ''#'' \<in> set url2 then tl (dropWhile (\<lambda>c. c \<noteq> CHR ''#'') url2) else []);
          url3 = takeWhile (\<lambda>c. c \<noteq> CHR ''#'') url2;
          qry = (if CHR ''?'' \<in> set url3 then tl (dropWhile (\<lambda>c. c \<noteq> CHR ''?'') url3) else []);
          pth = takeWhile (\<lambda>c. c \<noteq> CHR ''?'') url3
      in \<lparr>scheme = sch, netloc = nl, path = pth, query = qry, fragment = frag\<rparr>)"

definition urlunsplit_generic :: "split_result \<Rightarrow> string" where
  "urlunsplit_generic p =
     (let url = (if netloc p \<noteq> []
                 then ''//'' @ netloc p @ (if path p \<noteq> [] \<and> take 1 (path p) \<noteq> ''/'' then CHR ''/'' # path p else path p)
                 else path p);
          url = (if scheme p \<noteq> [] then scheme p @ CHR '':'' # url else url);
          url = (if query p \<noteq> [] then url @ CHR ''?'' # query p else url);
          url = (if fragment p \<noteq> [] then url @ CHR ''#'' # fragment p else url)
      in url)"

definition generic_urllib :: urllib where
  "generic_urllib = \<lparr>urlsplit = urlsplit_generic, urlunsplit = urlunsplit_generic\<rparr>"

section \<open>The pagination cursor in a URL\<close>

text \<open>\<open>get_page_number_from_url\<close> (autonomous driver): \<open>None\<close> when absent or not an integer.\<close>

definition get_page_number_from_url :: "urllib \<Rightarrow> string \<Rightarrow> int option" where
  "get_page_number_from_url L url =
     (let parts = urlsplit L url;
          qd = parse_qs (query parts) True
      in case dict_get qd ''page'' of
           None \<Rightarrow> None
         | Some (current_raw, _) \<Rightarrow> py_int current_raw)"

text \<open>\<open>with_page_number\<close> (autonomous driver).\<close>

definition with_page_number :: "urllib \<Rightarrow> string \<Rightarrow> int \<Rightarrow> string" where
  "with_page_number L url page_number =
     (let parts = urlsplit L url;
          qd = parse_qs (query parts) True;
          qd = dict_set qd ''page'' (str_int page_number, []);
          next_query = urlencode qd
      in urlunsplit L \<lparr>scheme = scheme parts, netloc = netloc parts, path = path parts,
                        query = next_query, fragment = fragment parts\<rparr>)"



section \<open>The browser-automation interface\<close>

text \<open>
  The autonomous driver (\<open>simple_click_connect_attach.py\<close>) talks to the page through
  Playwright. The page is an abstract state \<open>'b\<close>; every Playwright call the driver makes
  is a function of the interface record below, which may change the page, and may raise.
  A \<open>PlaywrightTimeoutError\<close> is a \<open>PlaywrightError\<close> in Python, so a handler for the
  latter catches both constructors; the second constructor stands for the errors that
  are not timeouts. Printing is left out.
\<close>

datatype py_exc = PlaywrightTimeoutError string | PlaywrightError string

datatype locator =
    GetByRole string "string option"
  | Locator string
  | First locator
  | Nth locator nat
  | InGetByRole locator string "string option"
  | InGetByText locator string

datatype action =
    Click locator int
  | WaitForVisible locator int
  | ScrollIntoView locator int
  | Evaluate locator string string
  | MouseWheel int int
  | WaitForTimeout int
  | Goto string int
  | WaitForLoadState int

datatype event =
    Did action
  | Counted locator
  | GotAttribute locator string
  | ReadTime
  | Slept real

record 'b api =
  page_url :: "'b \<Rightarrow> string"
  page_is_closed :: "'b \<Rightarrow> bool"
  count :: "locator \<Rightarrow> 'b \<Rightarrow> (py_exc + nat) \<times> 'b"
  get_attribute :: "locator \<Rightarrow> string \<Rightarrow> 'b \<Rightarrow> (py_exc + string option) \<times> 'b"
  perform :: "action \<Rightarrow> 'b \<Rightarrow> py_exc option \<times> 'b"
  time_time :: "'b \<Rightarrow> real \<times> 'b"
  time_sleep :: "real \<Rightarrow> 'b \<Rightarrow> 'b"

text \<open>
  The world is the page together with the list of calls made so far. A computation
  returns a value, raises, or runs out of fuel (\<open>Diverge\<close>): the \<open>while\<close> loops of the
  driver have no bound of their own, so each takes a number of iterations it may use.
\<close>

record 'b world =
  env :: 'b
  trace :: "event list"

datatype ('a, 'b) res = Return 'a "'b world" | Raise py_exc "'b world" | Diverge

definition seq :: "('a, 'b) res \<Rightarrow> ('a \<Rightarrow> 'b world \<Rightarrow> ('c, 'b) res) \<Rightarrow> ('c, 'b) res" where
  "seq r f = (case r of Return a w \<Rightarrow> f a w | Raise e w \<Rightarrow> Raise e w | Diverge \<Rightarrow> Diverge)"

definition except :: "('a, 'b) res \<Rightarrow> (py_exc \<Rightarrow> 'b world \<Rightarrow> ('a, 'b) res) \<Rightarrow> ('a, 'b) res" where
  "except r h = (case r of Return a w \<Rightarrow> Return a w | Raise e w \<Rightarrow> h e w | Diverge \<Rightarrow> Diverge)"

definition do_count :: "'b api \<Rightarrow> locator \<Rightarrow> 'b world \<Rightarrow> (nat, 'b) res" where
  "do_count A loc w =
     (case count A loc (env w) of
        (Inl e, b) \<Rightarrow> Raise e \<lparr>env = b, trace = trace w @ [Counted loc]\<rparr>
      | (Inr n, b) \<Rightarrow> Return n \<lparr>env = b, trace = trace w @ [Counted loc]\<rparr>)"

definition do_get_attribute :: "'b api \<Rightarrow> locator \<Rightarrow> string \<Rightarrow> 'b world \<Rightarrow> (string option, 'b) res" where
  "do_get_attribute A loc name w =
     (case get_attribute A loc name (env w) of
        (Inl e, b) \<Rightarrow> Raise e \<lparr>env = b, trace = trace w @ [GotAttribute loc name]\<rparr>
      | (Inr v, b) \<Rightarrow> Return v \<lparr>env = b, trace = trace w @ [GotAttribute loc name]\<rparr>)"

definition do_act :: "'b api \<Rightarrow> action \<Rightarrow> 'b world \<Rightarrow> (unit, 'b) res" where
  "do_act A a w =
     (case perform A a (env w) of
        (Some e, b) \<Rightarrow> Raise e \<lparr>env = b, trace = trace w @ [Did a]\<rparr>
      | (None, b) \<Rightarrow> Return () \<lparr>env = b, trace = trace w @ [Did a]\<rparr>)"

definition do_time :: "'b api \<Rightarrow> 'b world \<Rightarrow> (real, 'b) res" where
  "do_time A w =
     (case time_time A (env w) of (t, b) \<Rightarrow> Return t \<lparr>env = b, trace = trace w @ [ReadTime]\<rparr>)"

definition do_sleep :: "'b api \<Rightarrow> real \<Rightarrow> 'b world \<Rightarrow> 'b world" where
  "do_sleep A d w = \<lparr>env = time_sleep A d (env w), trace = trace w @ [Slept d]\<rparr>"

text \<open>\<open>int(x)\<close> for a float: truncation toward zero.\<close>

definition py_trunc :: "real \<Rightarrow> int" where
  "py_trunc x = (if 0 \<le> x then \<lfloor>x\<rfloor> else \<lceil>x\<rceil>)"

text \<open>\<open>needle in hay\<close> for strings.\<close>

fun starts_with :: "string \<Rightarrow> string \<Rightarrow> bool" where
  "starts_with [] hay = True"
| "starts_with (n # ns) [] = False"
| "starts_with (n # ns) (h # hs) = (n = h \<and> starts_with ns hs)"

fun contains :: "string \<Rightarrow> string \<Rightarrow> bool" where
  "contains needle [] = (needle = [])"
| "contains needle (h # hs) = (starts_with needle (h # hs) \<or> contains needle hs)"

section \<open>Page state inspection and the invite modal\<close>

datatype modal_status =
    No_modal | Blocked | Send_timeout | Send_error | Sent | Stalled_modal
  | Clear | Closed_without_send | Still_open

text \<open>\<open>get_or_assign_button_id\<close>\<close>

definition get_or_assign_button_id ::
  "'b api \<Rightarrow> locator \<Rightarrow> int \<Rightarrow> 'b world \<Rightarrow> (string \<times> int, 'b) res" where
  "get_or_assign_button_id A button id_seq w =
     seq (do_get_attribute A button ''data-pmi-helper-id'' w) (\<lambda>existing w.
       case existing of
         Some (c # cs) \<Rightarrow> Return (c # cs, id_seq) w
       | _ \<Rightarrow>
           seq (do_time A w) (\<lambda>t w.
             let button_id = ''pmi-helper-'' @ str_int (py_trunc (t * 1000)) @ ''-'' @ str_int id_seq
             in seq (do_act A (Evaluate button
                       ''(el, value) => el.setAttribute('data-pmi-helper-id', value)'' button_id) w)
                  (\<lambda>_ w. Return (button_id, id_seq + 1) w)))"

text \<open>\<open>has_modal_error\<close>: the loop over the error patterns, then the function.\<close>

definition dialog_first :: locator where
  "dialog_first = First (GetByRole ''dialog'' None)"

definition error_patterns :: "string list" where
  "error_patterns = [''Cannot read properties of undefined'', ''Something went wrong'', ''error'']"

fun has_modal_error_loop :: "'b api \<Rightarrow> locator \<Rightarrow> string list \<Rightarrow> 'b world \<Rightarrow> (bool, 'b) res" where
  "has_modal_error_loop A dialog [] w = Return False w"
| "has_modal_error_loop A dialog (pattern # ps) w =
     (case do_count A (InGetByText dialog pattern) w of
        Return n w' \<Rightarrow> if n > 0 then Return True w' else has_modal_error_loop A dialog ps w'
      | Raise e w' \<Rightarrow> has_modal_error_loop A dialog ps w'
      | Diverge \<Rightarrow> Diverge)"

definition has_modal_error :: "'b api \<Rightarrow> 'b world \<Rightarrow> (bool, 'b) res" where
  "has_modal_error A w =
     seq (do_count A dialog_first w) (\<lambda>n w.
       if n = 0 then Return False w
       else has_modal_error_loop A dialog_first error_patterns w)"

text \<open>\<open>is_dialog_open\<close>\<close>

definition is_dialog_open :: "'b api \<Rightarrow> 'b world \<Rightarrow> (bool, 'b) res" where
  "is_dialog_open A w =
     except (seq (do_count A (GetByRole ''dialog'' None) w) (\<lambda>n w. Return (n > 0) w))
       (\<lambda>e w. Return False w)"

text \<open>\<open>close_modal_if_open\<close>\<close>

definition close_selector :: string where
  "close_selector = ''[role='dialog'] button[aria-label*='close' i], [role='dialog'] button[title*='close' i], [role='dialog'] button[class*='close' i]''"

definition close_modal_if_open :: "'b api \<Rightarrow> 'b world \<Rightarrow> (bool, 'b) res" where
  "close_modal_if_open A w =
     seq (do_count A dialog_first w) (\<lambda>n w.
       if n = 0 then Return False w
       else
         let cancel_btn = InGetByRole dialog_first ''button'' (Some ''Cancel'') in
         seq (do_count A cancel_btn w) (\<lambda>n w.
           if n > 0 then seq (do_act A (Click (First cancel_btn) 5000) w) (\<lambda>_ w. Return True w)
           else
             let close_btn = Locator close_selector in
             seq (do_count A close_btn w) (\<lambda>n w.
               if n > 0 then seq (do_act A (Click (First close_btn) 5000) w) (\<lambda>_ w. Return True w)
               else Return False w)))"

text \<open>
  \<open>process_invite_modal\<close>: first its polling loop (\<open>None\<close> when the deadline passes),
  then the function.
\<close>

fun process_invite_modal_loop ::
  "nat \<Rightarrow> 'b api \<Rightarrow> real \<Rightarrow> 'b world \<Rightarrow> (modal_status option, 'b) res" where
  "process_invite_modal_loop 0 A deadline w = Diverge"
| "process_invite_modal_loop (Suc fuel) A deadline w =
     seq (do_time A w) (\<lambda>t w.
       if t < deadline then
         seq (has_modal_error A w) (\<lambda>err w.
           if err then seq (close_modal_if_open A w) (\<lambda>_ w. Return (Some Blocked) w)
           else
             seq (is_dialog_open A w) (\<lambda>opened w.
               if \<not> opened then Return (Some Sent) w
               else seq (do_act A (WaitForTimeout 300) w) (\<lambda>_ w.
                      process_invite_modal_loop fuel A deadline w)))
       else Return None w)"

text \<open>
  The source repeats \<open>if has_modal_error(page): close_modal_if_open(page); return "blocked"\<close>
  at four places; \<open>blocked_or\<close> is that statement followed by what comes after it.
\<close>

definition blocked_or :: "'b api \<Rightarrow> ('b world \<Rightarrow> (modal_status, 'b) res) \<Rightarrow> 'b world \<Rightarrow> (modal_status, 'b) res" where
  "blocked_or A otherwise w =
     seq (has_modal_error A w) (\<lambda>err w.
       if err then seq (close_modal_if_open A w) (\<lambda>_ w. Return Blocked w)
       else otherwise w)"

definition process_invite_modal ::
  "nat \<Rightarrow> 'b api \<Rightarrow> string \<Rightarrow> int \<Rightarrow> 'b world \<Rightarrow> (modal_status, 'b) res" where
  "process_invite_modal fuel A send_request_label timeout_ms w =
     (let button = First (GetByRole ''button'' (Some send_request_label)) in
      case do_act A (WaitForVisible button timeout_ms) w of
        Raise e w \<Rightarrow> Return No_modal w
      | Diverge \<Rightarrow> Diverge
      | Return _ w \<Rightarrow>
          blocked_or A (\<lambda>w.
            case do_act A (Click button 10000) w of
              Raise (PlaywrightTimeoutError m) w \<Rightarrow> blocked_or A (\<lambda>w. Return Send_timeout w) w
            | Raise (PlaywrightError m) w \<Rightarrow> blocked_or A (\<lambda>w. Return Send_error w) w
            | Diverge \<Rightarrow> Diverge
            | Return _ w \<Rightarrow>
                seq (do_time A w) (\<lambda>t w.
                  let deadline = t + real_of_int timeout_ms / 1000 in
                  seq (process_invite_modal_loop fuel A deadline w) (\<lambda>r w.
                    case r of
                      Some status \<Rightarrow> Return status w
                    | None \<Rightarrow>
                        blocked_or A (\<lambda>w.
                          seq (close_modal_if_open A w) (\<lambda>closed w. Return Stalled_modal w)) w))) w)"

text \<open>\<open>resolve_any_open_modal\<close>\<close>

definition resolve_any_open_modal ::
  "nat \<Rightarrow> 'b api \<Rightarrow> string \<Rightarrow> int \<Rightarrow> 'b world \<Rightarrow> (modal_status, 'b) res" where
  "resolve_any_open_modal fuel A send_request_label timeout_ms w =
     seq (is_dialog_open A w) (\<lambda>opened w.
       if \<not> opened then Return Clear w
       else
         seq (process_invite_modal fuel A send_request_label timeout_ms w) (\<lambda>status w.
           if status = No_modal then
             seq (close_modal_if_open A w) (\<lambda>closed w.
               if closed then Return Closed_without_send w else Return Still_open w)
           else Return status w))"

text \<open>\<open>wait_for_connect_change\<close>: its polling loop, then the function.\<close>

fun wait_for_connect_change_loop ::
  "nat \<Rightarrow> 'b api \<Rightarrow> string \<Rightarrow> nat \<Rightarrow> real \<Rightarrow> 'b world \<Rightarrow> (bool, 'b) res" where
  "wait_for_connect_change_loop 0 A button_label previous_count deadline w = Diverge"
| "wait_for_connect_change_loop (Suc fuel) A button_label previous_count deadline w =
     seq (do_time A w) (\<lambda>t w.
       if t < deadline then
         seq (do_count A (GetByRole ''button'' (Some button_label)) w) (\<lambda>current w.
           if current < previous_count then Return True w
           else seq (do_act A (WaitForTimeout 400) w) (\<lambda>_ w.
                  wait_for_connect_change_loop fuel A button_label previous_count deadline w))
       else Return False w)"

definition wait_for_connect_change ::
  "nat \<Rightarrow> 'b api \<Rightarrow> string \<Rightarrow> nat \<Rightarrow> int \<Rightarrow> 'b world \<Rightarrow> (bool, 'b) res" where
  "wait_for_connect_change fuel A button_label previous_count timeout_ms w =
     seq (do_time A w) (\<lambda>t w.
       wait_for_connect_change_loop fuel A button_label previous_count
         (t + real_of_int timeout_ms / 1000) w)"

text \<open>\<open>discover_connect_buttons\<close>: its polling loop, then the function.\<close>

fun discover_connect_buttons_loop ::
  "nat \<Rightarrow> 'b api \<Rightarrow> string \<Rightarrow> real \<Rightarrow> nat \<Rightarrow> 'b world \<Rightarrow> (nat, 'b) res" where
  "discover_connect_buttons_loop 0 A button_label deadline max_count w = Diverge"
| "discover_connect_buttons_loop (Suc fuel) A button_label deadline max_count w =
     seq (do_time A w) (\<lambda>t w.
       if t < deadline then
         seq (except (do_count A (GetByRole ''button'' (Some button_label)) w) (\<lambda>e w. Return 0 w))
           (\<lambda>cnt w.
             let max_count = (if cnt > max_count then cnt else max_count) in
             if max_count > 0 then Return max_count w
             else
               seq (except
                      (seq (do_act A (MouseWheel 0 900) w) (\<lambda>_ w.
                       seq (do_act A (WaitForTimeout 250) w) (\<lambda>_ w.
                         do_act A (MouseWheel 0 (- 900)) w)))
                      (\<lambda>e w. Return () w))
                 (\<lambda>_ w.
                   seq (do_act A (WaitForTimeout 400) w) (\<lambda>_ w.
                     discover_connect_buttons_loop fuel A button_label deadline max_count w)))
       else Return max_count w)"

definition discover_connect_buttons ::
  "nat \<Rightarrow> 'b api \<Rightarrow> string \<Rightarrow> int \<Rightarrow> 'b world \<Rightarrow> (nat, 'b) res" where
  "discover_connect_buttons fuel A button_label settle_timeout_ms w =
     seq (do_time A w) (\<lambda>t w.
       discover_connect_buttons_loop fuel A button_label
         (t + real_of_int settle_timeout_ms / 1000) 0 w)"

section \<open>Navigation\<close>

text \<open>
  \<open>goto_with_retries\<close>: the loop over \<open>range(1, retries + 1)\<close> (the number of attempts left
  and the attempt number), then the function. Both handlers of the source do the same.
\<close>

fun goto_with_retries_loop ::
  "'b api \<Rightarrow> string \<Rightarrow> int \<Rightarrow> int \<Rightarrow> nat \<Rightarrow> int \<Rightarrow> 'b world \<Rightarrow> (bool, 'b) res" where
  "goto_with_retries_loop A url timeout_ms retries 0 attempt w = Return False w"
| "goto_with_retries_loop A url timeout_ms retries (Suc left) attempt w =
     (case do_act A (Goto url timeout_ms) w of
        Return _ w \<Rightarrow> Return True w
      | Raise e w \<Rightarrow>
          if attempt < retries then
            seq (do_act A (WaitForTimeout (800 * attempt)) w) (\<lambda>_ w.
              goto_with_retries_loop A url timeout_ms retries left (attempt + 1) w)
          else Return False w
      | Diverge \<Rightarrow> Diverge)"

definition goto_with_retries :: "'b api \<Rightarrow> string \<Rightarrow> int \<Rightarrow> int \<Rightarrow> 'b world \<Rightarrow> (bool, 'b) res" where
  "goto_with_retries A url timeout_ms retries w =
     goto_with_retries_loop A url timeout_ms retries (nat retries) 1 w"

text \<open>
  \<open>go_to_next_page\<close>: the wait for the load state (a timeout is ignored, any other error
  propagates), the loop over \<open>range(max_attempts)\<close>, then the function.
\<close>

definition wait_for_load_state :: "'b api \<Rightarrow> int \<Rightarrow> 'b world \<Rightarrow> (unit, 'b) res" where
  "wait_for_load_state A timeout_ms w =
     (case do_act A (WaitForLoadState timeout_ms) w of
        Raise (PlaywrightTimeoutError m) w \<Rightarrow> Return () w
      | r \<Rightarrow> r)"

fun go_to_next_page_loop ::
  "'b api \<Rightarrow> urllib \<Rightarrow> string \<Rightarrow> int \<Rightarrow> int \<Rightarrow> int \<Rightarrow> nat \<Rightarrow> int option \<Rightarrow> 'b world
   \<Rightarrow> (bool \<times> int option, 'b) res" where
  "go_to_next_page_loop A L old_url expected_next_page timeout_ms navigation_retries 0 landed_page w =
     Return (False, landed_page) w"
| "go_to_next_page_loop A L old_url expected_next_page timeout_ms navigation_retries (Suc left) landed_page w =
     (let next_url = with_page_number L old_url expected_next_page in
      seq (goto_with_retries A next_url timeout_ms navigation_retries w) (\<lambda>ok w.
        if \<not> ok then
          go_to_next_page_loop A L old_url expected_next_page timeout_ms navigation_retries left landed_page w
        else
          seq (wait_for_load_state A timeout_ms w) (\<lambda>_ w.
            let landed_page = get_page_number_from_url L (page_url A (env w)) in
            if landed_page = Some expected_next_page then Return (True, landed_page) w
            else go_to_next_page_loop A L old_url expected_next_page timeout_ms navigation_retries
                   left landed_page w)))"

definition next_selector :: string where
  "next_selector = ''a[aria-label*='next' i],button[aria-label*='next' i],a[rel='next']''"

definition go_to_next_page ::
  "'b api \<Rightarrow> urllib \<Rightarrow> int \<Rightarrow> int option \<Rightarrow> int \<Rightarrow> int \<Rightarrow> 'b world \<Rightarrow> (bool \<times> int option, 'b) res" where
  "go_to_next_page A L timeout_ms expected_next_page max_attempts navigation_retries w =
     (let old_url = page_url A (env w);
          old_page = get_page_number_from_url L old_url;
          expected_next_page =
            (case (expected_next_page, old_page) of
               (None, Some p) \<Rightarrow> Some (p + 1)
             | _ \<Rightarrow> expected_next_page)
      in case expected_next_page of
           Some e \<Rightarrow>
             go_to_next_page_loop A L old_url e timeout_ms navigation_retries (nat max_attempts) None w
         | None \<Rightarrow>
             (let next_arrow = First (Locator next_selector) in
              seq (do_count A next_arrow w) (\<lambda>n w.
                if n = 0 then Return (False, get_page_number_from_url L (page_url A (env w))) w
                else
                  (case do_act A (Click next_arrow 10000) w of
                     Raise e w \<Rightarrow> Return (False, get_page_number_from_url L (page_url A (env w))) w
                   | Diverge \<Rightarrow> Diverge
                   | Return _ w \<Rightarrow>
                       seq (wait_for_load_state A timeout_ms w) (\<lambda>_ w.
                         let new_url = page_url A (env w);
                             moved = (new_url \<noteq> old_url)
                         in Return (moved, get_page_number_from_url L new_url) w)))))"

section \<open>The main loop of the autonomous driver\<close>

text \<open>
  The command-line arguments \<open>main\<close> reads after validation, and its local variables.
  Connecting to the browser and picking the tab (\<open>pick_page\<close>) are not modelled: the
  model starts where \<open>main\<close> initialises its counters.
\<close>

record args =
  button_label :: string
  delay_seconds :: real
  max_clicks :: int
  max_pages :: int
  send_request_label :: string
  modal_timeout_seconds :: real
  navigation_timeout_seconds :: real
  navigation_retries :: int
  page_settle_seconds :: real
  no_auto_next_page :: bool

record locals =
  total_clicked :: int
  pages_processed :: int
  stop :: bool
  id_seq :: int
  skipped_button_ids :: "string set"
  total_skipped :: int
  last_completed_page :: "int option"
  page_clicks :: int
  skipped_this_page :: int

definition initial_locals :: locals where
  "initial_locals =
     \<lparr>total_clicked = 0, pages_processed = 0, stop = False, id_seq = 1, skipped_button_ids = {},
      total_skipped = 0, last_completed_page = None, page_clicks = 0, skipped_this_page = 0\<rparr>"

text \<open>How a part of a loop body ends: it falls through to the next statement with a
  value, or executes \<open>continue\<close>, or \<open>break\<close>.\<close>

datatype 'a flow = Next 'a | Continue_loop | Break_loop

text \<open>\<open>if args.delay_seconds > 0: time.sleep(args.delay_seconds)\<close>\<close>

definition delay :: "'b api \<Rightarrow> args \<Rightarrow> 'b world \<Rightarrow> 'b world" where
  "delay A a w = (if delay_seconds a > 0 then do_sleep A (delay_seconds a) w else w)"

definition failed_statuses :: "modal_status set" where
  "failed_statuses = {Blocked, Send_timeout, Send_error, Stalled_modal}"

text \<open>The statuses \<open>process_invite_modal\<close> can return.\<close>

definition invite_outcomes :: "modal_status set" where
  "invite_outcomes = {No_modal, Blocked, Send_timeout, Send_error, Sent, Stalled_modal}"

text \<open>The body of the inner loop, lines 445 to 463: a modal left open is resolved first.\<close>

definition resolve_lingering ::
  "nat \<Rightarrow> 'b api \<Rightarrow> args \<Rightarrow> locals \<Rightarrow> 'b world \<Rightarrow> (unit flow \<times> locals, 'b) res" where
  "resolve_lingering fuel A a s w =
     seq (resolve_any_open_modal fuel A (send_request_label a)
            (py_trunc (modal_timeout_seconds a * 1000)) w) (\<lambda>lingering_status w.
       if lingering_status = Still_open then Return (Break_loop, s\<lparr>stop := True\<rparr>) w
       else if lingering_status \<noteq> Clear then
         (let s = (if lingering_status \<in> failed_statuses
                   then s\<lparr>total_skipped := total_skipped s + 1,
                          skipped_this_page := skipped_this_page s + 1\<rparr>
                   else s)
          in Return (Continue_loop, s) (delay A a w))
       else Return (Next (), s) w)"

text \<open>
  Lines 465 to 492: count the buttons (with the settle probe when there are none) and
  select the first one whose identifier is not in the skip registry. The loop over
  \<open>range(count)\<close> takes the number of candidates left and the index.
\<close>

fun select_loop ::
  "'b api \<Rightarrow> locator \<Rightarrow> string set \<Rightarrow> nat \<Rightarrow> nat \<Rightarrow> int \<Rightarrow> 'b world
   \<Rightarrow> ((locator \<times> string) option \<times> int, 'b) res" where
  "select_loop A buttons skipped 0 idx idseq w = Return (None, idseq) w"
| "select_loop A buttons skipped (Suc left) idx idseq w =
     (let candidate = Nth buttons idx in
      seq (get_or_assign_button_id A candidate idseq w) (\<lambda>r w.
        case r of (button_id, idseq) \<Rightarrow>
          if button_id \<in> skipped then select_loop A buttons skipped left (Suc idx) idseq w
          else Return (Some (candidate, button_id), idseq) w))"

definition select_from ::
  "'b api \<Rightarrow> args \<Rightarrow> nat \<Rightarrow> locals \<Rightarrow> 'b world
   \<Rightarrow> ((locator \<times> string \<times> nat) flow \<times> locals, 'b) res" where
  "select_from A a cnt s w =
     seq (select_loop A (GetByRole ''button'' (Some (button_label a))) (skipped_button_ids s)
            cnt 0 (id_seq s) w) (\<lambda>r w.
       case r of
         (None, idseq') \<Rightarrow> Return (Break_loop, s\<lparr>id_seq := idseq'\<rparr>) w
       | (Some (selected, selected_id), idseq') \<Rightarrow>
           Return (Next (selected, selected_id, cnt), s\<lparr>id_seq := idseq'\<rparr>) w)"

definition select_button ::
  "nat \<Rightarrow> 'b api \<Rightarrow> args \<Rightarrow> locals \<Rightarrow> 'b world
   \<Rightarrow> ((locator \<times> string \<times> nat) flow \<times> locals, 'b) res" where
  "select_button fuel A a s w =
     (let buttons = GetByRole ''button'' (Some (button_label a)) in
      seq (do_count A buttons w) (\<lambda>cnt w.
        if cnt = 0 then
          seq (discover_connect_buttons fuel A (button_label a)
                 (py_trunc (page_settle_seconds a * 1000)) w) (\<lambda>discovered w.
            if discovered = 0 then Return (Break_loop, s) w
            else seq (do_count A buttons w) (\<lambda>cnt w. select_from A a cnt s w))
        else select_from A a cnt s w))"

text \<open>Lines 494 to 524: the primary click and its two handlers.\<close>

definition skip_selected :: "'b api \<Rightarrow> args \<Rightarrow> string \<Rightarrow> locals \<Rightarrow> 'b world \<Rightarrow> (unit flow \<times> locals, 'b) res" where
  "skip_selected A a selected_id s w =
     Return (Continue_loop,
             s\<lparr>skipped_button_ids := insert selected_id (skipped_button_ids s),
               skipped_this_page := skipped_this_page s + 1,
               total_skipped := total_skipped s + 1\<rparr>) (delay A a w)"

definition close_or_skip :: "'b api \<Rightarrow> args \<Rightarrow> string \<Rightarrow> locals \<Rightarrow> 'b world \<Rightarrow> (unit flow \<times> locals, 'b) res" where
  "close_or_skip A a selected_id s w =
     seq (close_modal_if_open A w) (\<lambda>closed w.
       if closed then Return (Continue_loop, s) (delay A a w)
       else skip_selected A a selected_id s w)"

definition click_selected ::
  "'b api \<Rightarrow> args \<Rightarrow> locator \<Rightarrow> string \<Rightarrow> locals \<Rightarrow> 'b world \<Rightarrow> (unit flow \<times> locals, 'b) res" where
  "click_selected A a selected selected_id s w =
     seq (do_act A (ScrollIntoView selected 5000) w) (\<lambda>_ w.
       case do_act A (Click selected 10000) w of
         Return _ w \<Rightarrow> Return (Next (), s) w
       | Diverge \<Rightarrow> Diverge
       | Raise (PlaywrightTimeoutError msg) w \<Rightarrow>
           if contains ''intercepts pointer events'' msg then close_or_skip A a selected_id s w
           else
             seq (is_dialog_open A w) (\<lambda>opened w.
               if opened then close_or_skip A a selected_id s w
               else skip_selected A a selected_id s w)
       | Raise (PlaywrightError msg) w \<Rightarrow> close_or_skip A a selected_id s w)"

text \<open>Lines 526 to 565: the invite modal, the confirmation poll and the counters.\<close>

definition after_click ::
  "nat \<Rightarrow> 'b api \<Rightarrow> args \<Rightarrow> string \<Rightarrow> nat \<Rightarrow> locals \<Rightarrow> 'b world \<Rightarrow> (unit flow \<times> locals, 'b) res" where
  "after_click fuel A a selected_id cnt s w =
     seq (process_invite_modal fuel A (send_request_label a)
            (py_trunc (modal_timeout_seconds a * 1000)) w) (\<lambda>modal_status w.
       if modal_status \<in> failed_statuses then skip_selected A a selected_id s w
       else
         seq (wait_for_connect_change fuel A (button_label a) cnt 6000 w) (\<lambda>_ w.
           let s = s\<lparr>total_clicked := total_clicked s + 1, page_clicks := page_clicks s + 1\<rparr> in
           if max_clicks a \<noteq> 0 \<and> total_clicked s \<ge> max_clicks a
           then Return (Break_loop, s\<lparr>stop := True\<rparr>) w
           else Return (Continue_loop, s) (delay A a w)))"

text \<open>One pass through the body of the inner \<open>while True\<close>, and the loop.\<close>

datatype ctl = Continue | Break

definition inner_body ::
  "nat \<Rightarrow> 'b api \<Rightarrow> args \<Rightarrow> locals \<Rightarrow> 'b world \<Rightarrow> (ctl \<times> locals, 'b) res" where
  "inner_body fuel A a s w =
     seq (resolve_lingering fuel A a s w) (\<lambda>r w.
       case r of
         (Break_loop, s) \<Rightarrow> Return (Break, s) w
       | (Continue_loop, s) \<Rightarrow> Return (Continue, s) w
       | (Next _, s) \<Rightarrow>
           seq (select_button fuel A a s w) (\<lambda>r w.
             case r of
               (Break_loop, s) \<Rightarrow> Return (Break, s) w
             | (Continue_loop, s) \<Rightarrow> Return (Continue, s) w
             | (Next (selected, selected_id, cnt), s) \<Rightarrow>
                 seq (click_selected A a selected selected_id s w) (\<lambda>r w.
                   case r of
                     (Break_loop, s) \<Rightarrow> Return (Break, s) w
                   | (Continue_loop, s) \<Rightarrow> Return (Continue, s) w
                   | (Next _, s) \<Rightarrow>
                       seq (after_click fuel A a selected_id cnt s w) (\<lambda>r w.
                         case r of
                           (Break_loop, s) \<Rightarrow> Return (Break, s) w
                         | (_, s) \<Rightarrow> Return (Continue, s) w))))"

fun inner_loop :: "nat \<Rightarrow> 'b api \<Rightarrow> args \<Rightarrow> locals \<Rightarrow> 'b world \<Rightarrow> (locals, 'b) res" where
  "inner_loop 0 A a s w = Diverge"
| "inner_loop (Suc fuel) A a s w =
     seq (inner_body fuel A a s w) (\<lambda>r w.
       case r of
         (Break, s) \<Rightarrow> Return s w
       | (Continue, s) \<Rightarrow> inner_loop fuel A a s w)"

text \<open>
  Lines 401 to 432 of the outer loop: the cursor of the page and the rollback check.
  \<open>Next\<close> carries \<open>current_page_num\<close>; \<open>Break_loop\<close> leaves the outer loop.
\<close>

definition rollback_check ::
  "'b api \<Rightarrow> urllib \<Rightarrow> args \<Rightarrow> locals \<Rightarrow> 'b world \<Rightarrow> (int option flow, 'b) res" where
  "rollback_check A L a s w =
     (let current_page_num = get_page_number_from_url L (page_url A (env w)) in
      case (last_completed_page s, current_page_num) of
        (Some last_completed, Some current) \<Rightarrow>
          if current < last_completed then
            (let recovery_page = last_completed + 1;
                 recovery_url = with_page_number L (page_url A (env w)) recovery_page
             in seq (goto_with_retries A recovery_url
                       (py_trunc (navigation_timeout_seconds a * 1000)) (navigation_retries a) w)
                  (\<lambda>recovered w.
                    if \<not> recovered then Return Break_loop w
                    else
                      (case get_page_number_from_url L (page_url A (env w)) of
                         None \<Rightarrow> Return Break_loop w
                       | Some current \<Rightarrow>
                           if current < last_completed then Return Break_loop w
                           else Return (Next (Some current)) w)))
          else Return (Next current_page_num) w
      | _ \<Rightarrow> Return (Next current_page_num) w)"

text \<open>Lines 567 to 601: what follows the inner loop.\<close>

definition page_finish ::
  "'b api \<Rightarrow> urllib \<Rightarrow> args \<Rightarrow> int option \<Rightarrow> locals \<Rightarrow> 'b world \<Rightarrow> (ctl \<times> locals, 'b) res" where
  "page_finish A L a current_page_num s w =
     (if stop s then Return (Break, s) w
      else
        (let s = (case current_page_num of
                    Some c \<Rightarrow> s\<lparr>last_completed_page := Some c\<rparr>
                  | None \<Rightarrow> s)
         in if max_pages a \<noteq> 0 \<and> pages_processed s \<ge> max_pages a then Return (Break, s) w
            else if no_auto_next_page a then Return (Break, s) w
            else
              (let expected_next_page = (case current_page_num of Some c \<Rightarrow> Some (c + 1) | None \<Rightarrow> None)
               in seq (go_to_next_page A L (py_trunc (navigation_timeout_seconds a * 1000))
                         expected_next_page 3 (navigation_retries a) w) (\<lambda>r w.
                    case r of (moved, landed_page) \<Rightarrow>
                      if \<not> moved then Return (Break, s) w
                      else Return (Continue, s) (delay A a w)))))"

text \<open>Lines 434 to 601: one page-processing cycle.\<close>

definition page_cycle ::
  "nat \<Rightarrow> 'b api \<Rightarrow> urllib \<Rightarrow> args \<Rightarrow> int option \<Rightarrow> locals \<Rightarrow> 'b world \<Rightarrow> (ctl \<times> locals, 'b) res" where
  "page_cycle fuel A L a current_page_num s w =
     (let s = s\<lparr>pages_processed := pages_processed s + 1, page_clicks := 0,
                skipped_this_page := 0, skipped_button_ids := {}\<rparr>
      in seq (inner_loop fuel A a s w) (\<lambda>s w. page_finish A L a current_page_num s w))"

text \<open>One pass through the body of the outer \<open>while True\<close>, the loop, and the run.\<close>

definition main_body ::
  "nat \<Rightarrow> 'b api \<Rightarrow> urllib \<Rightarrow> args \<Rightarrow> locals \<Rightarrow> 'b world \<Rightarrow> (ctl \<times> locals, 'b) res" where
  "main_body fuel A L a s w =
     (if page_is_closed A (env w) then Return (Break, s) w
      else
        seq (rollback_check A L a s w) (\<lambda>r w.
          case r of
            Next current_page_num \<Rightarrow> page_cycle fuel A L a current_page_num s w
          | _ \<Rightarrow> Return (Break, s) w))"

fun main_loop :: "nat \<Rightarrow> 'b api \<Rightarrow> urllib \<Rightarrow> args \<Rightarrow> locals \<Rightarrow> 'b world \<Rightarrow> (locals, 'b) res" where
  "main_loop 0 A L a s w = Diverge"
| "main_loop (Suc fuel) A L a s w =
     seq (main_body fuel A L a s w) (\<lambda>r w.
       case r of
         (Break, s) \<Rightarrow> Return s w
       | (Continue, s) \<Rightarrow> main_loop fuel A L a s w)"

definition main :: "nat \<Rightarrow> 'b api \<Rightarrow> urllib \<Rightarrow> args \<Rightarrow> 'b world \<Rightarrow> (locals, 'b) res" where
  "main fuel A L a w = main_loop fuel A L a initial_locals w"

section \<open>A simulated page\<close>

text \<open>
  An instance of the interface on which the driver can be run: a page with a URL, a
  clock, a list of Connect buttons (each with its helper identifier once tagged), an
  invite dialog that may be open and may show an error, and an optional next-page
  control. It is used to exhibit concrete runs; the theorems are about every instance.
\<close>

record sim =
  sim_url :: string
  sim_clock :: real
  sim_closed :: bool
  sim_dialog :: bool
  sim_dialog_error :: bool
  sim_buttons :: "string option list"
  sim_click_opens_dialog :: bool
  sim_click_removes :: bool
  sim_goto_times_out :: bool
  sim_next_href :: "string option"
  sim_next_click_times_out :: bool

fun sim_count :: "locator \<Rightarrow> sim \<Rightarrow> nat" where
  "sim_count (GetByRole role name) b =
     (if role = ''dialog'' then (if sim_dialog b then 1 else 0)
      else if role = ''button'' \<and> name = Some ''Connect'' then length (sim_buttons b)
      else if role = ''button'' \<and> name = Some ''Send Request'' then (if sim_dialog b then 1 else 0)
      else 0)"
| "sim_count (Locator sel) b =
     (if sel = next_selector \<and> sim_next_href b \<noteq> None then 1 else 0)"
| "sim_count (First l) b = min 1 (sim_count l b)"
| "sim_count (Nth l i) b = (if i < sim_count l b then 1 else 0)"
| "sim_count (InGetByRole l role name) b =
     (if 0 < sim_count l b \<and> role = ''button'' \<and> name = Some ''Cancel'' then 1 else 0)"
| "sim_count (InGetByText l text) b =
     (if 0 < sim_count l b \<and> sim_dialog_error b \<and> text = ''Something went wrong'' then 1 else 0)"

definition sim_timeout :: py_exc where
  "sim_timeout = PlaywrightTimeoutError ''Timeout exceeded''"

definition sim_click :: "locator \<Rightarrow> sim \<Rightarrow> py_exc option \<times> sim" where
  "sim_click loc b =
     (case loc of
        Nth (GetByRole role name) i \<Rightarrow>
          if role = ''button'' \<and> name = Some ''Connect'' \<and> i < length (sim_buttons b) then
            (None, b\<lparr>sim_dialog := sim_click_opens_dialog b,
                     sim_buttons := (if sim_click_removes b
                                     then take i (sim_buttons b) @ drop (Suc i) (sim_buttons b)
                                     else sim_buttons b)\<rparr>)
          else (Some sim_timeout, b)
      | First (GetByRole role name) \<Rightarrow>
          if role = ''button'' \<and> name = Some ''Send Request'' \<and> sim_dialog b
          then (None, b\<lparr>sim_dialog := False\<rparr>)
          else (Some sim_timeout, b)
      | First (InGetByRole l role name) \<Rightarrow>
          if 0 < sim_count (InGetByRole l role name) b then (None, b\<lparr>sim_dialog := False\<rparr>)
          else (Some sim_timeout, b)
      | First (Locator sel) \<Rightarrow>
          (case sim_next_href b of
             Some href \<Rightarrow>
               if sel = next_selector
               then (if sim_next_click_times_out b then Some sim_timeout else None, b\<lparr>sim_url := href\<rparr>)
               else (Some sim_timeout, b)
           | None \<Rightarrow> (Some sim_timeout, b))
      | _ \<Rightarrow> (Some sim_timeout, b))"

definition sim_perform :: "action \<Rightarrow> sim \<Rightarrow> py_exc option \<times> sim" where
  "sim_perform act b =
     (case act of
        Click loc t \<Rightarrow> sim_click loc b
      | WaitForVisible loc t \<Rightarrow>
          if 0 < sim_count loc b then (None, b)
          else (Some sim_timeout, b\<lparr>sim_clock := sim_clock b + real_of_int t / 1000\<rparr>)
      | ScrollIntoView loc t \<Rightarrow> (None, b)
      | Evaluate loc js v \<Rightarrow>
          (case loc of
             Nth l i \<Rightarrow> (None, b\<lparr>sim_buttons := (sim_buttons b)[i := Some v]\<rparr>)
           | _ \<Rightarrow> (None, b))
      | MouseWheel dx dy \<Rightarrow> (None, b)
      | WaitForTimeout ms \<Rightarrow> (None, b\<lparr>sim_clock := sim_clock b + real_of_int ms / 1000\<rparr>)
      | Goto u t \<Rightarrow>
          if sim_goto_times_out b
          then (Some sim_timeout, b\<lparr>sim_clock := sim_clock b + real_of_int t / 1000\<rparr>)
          else (None, b\<lparr>sim_url := u\<rparr>)
      | WaitForLoadState t \<Rightarrow> (None, b))"

definition sim_get_attribute :: "locator \<Rightarrow> string \<Rightarrow> sim \<Rightarrow> (py_exc + string option) \<times> sim" where
  "sim_get_attribute loc name b =
     (case loc of
        Nth l i \<Rightarrow>
          if i < length (sim_buttons b) then (Inr (sim_buttons b ! i), b) else (Inl sim_timeout, b)
      | _ \<Rightarrow> (Inr None, b))"

definition sim_api :: "sim api" where
  "sim_api =
     \<lparr>page_url = sim_url,
      page_is_closed = sim_closed,
      count = (\<lambda>loc b. (Inr (sim_count loc b), b)),
      get_attribute = sim_get_attribute,
      perform = sim_perform,
      time_time = (\<lambda>b. (sim_clock b, b)),
      time_sleep = (\<lambda>d b. b\<lparr>sim_clock := sim_clock b + d\<rparr>)\<rparr>"

definition sim_page :: sim where
  "sim_page =
     \<lparr>sim_url = ''https://example.com/members?page=3'', sim_clock = 100, sim_closed = False,
      sim_dialog = False, sim_dialog_error = False, sim_buttons = [None, None],
      sim_click_opens_dialog = False, sim_click_removes = True, sim_goto_times_out = False,
      sim_next_href = None, sim_next_click_times_out = False\<rparr>"

definition sim_args :: args where
  "sim_args =
     \<lparr>button_label = ''Connect'', delay_seconds = 2, max_clicks = 0, max_pages = 0,
      send_request_label = ''Send Request'', modal_timeout_seconds = 8,
      navigation_timeout_seconds = 15, navigation_retries = 3, page_settle_seconds = 6,
      no_auto_next_page = False\<rparr>"

definition start :: "'b \<Rightarrow> 'b world" where
  "start b = \<lparr>env = b, trace = []\<rparr>"

section \<open>Facts about the Python values\<close>



lemma ord_inject: "ord c = ord d \<Longrightarrow> c = d"
  by (simp add: ord_def)


















section \<open>Quoting and unquoting\<close>














section \<open>Encoding a query and parsing it again\<close>








lemma encode_item_nonempty: "encode_item kv \<noteq> []"
  by (cases kv) (auto simp: encode_item_def)
















section \<open>The pagination cursor: rewriting and reading\<close>













section \<open>Rollback recovery, the skip registry and the modal resolver\<close>

lemma seq_simps [simp]:
  "seq (Return x w) f = f x w"
  "seq (Raise e w) f = Raise e w"
  "seq Diverge f = Diverge"
  by (simp_all add: seq_def)

lemma except_simps [simp]:
  "except (Return x w) h = Return x w"
  "except (Raise e w) h = h e w"
  "except Diverge h = Diverge"
  by (simp_all add: except_def)

lemma do_act_cases:
  "(\<exists>b. perform A act (env w) = (None, b) \<and>
        do_act A act w = Return () \<lparr>env = b, trace = trace w @ [Did act]\<rparr>) \<or>
   (\<exists>e b. perform A act (env w) = (Some e, b) \<and>
        do_act A act w = Raise e \<lparr>env = b, trace = trace w @ [Did act]\<rparr>)"
  by (cases "perform A act (env w)") (auto simp: do_act_def split: option.splits)

lemma do_act_trace:
  "do_act A act w = Return x w' \<Longrightarrow> trace w' = trace w @ [Did act]"
  "do_act A act w = Raise e w' \<Longrightarrow> trace w' = trace w @ [Did act]"
  using do_act_cases [of A act w] by auto

lemma do_act_not_Diverge: "do_act A act w \<noteq> Diverge"
  using do_act_cases [of A act w] by auto

lemma goto_with_retries_loop_trace:
  "goto_with_retries_loop A url t r left attempt w = Return ok w' \<Longrightarrow>
   \<exists>es. trace w' = trace w @ es \<and>
        list_all (\<lambda>e. e = Did (Goto url t) \<or> (\<exists>ms. e = Did (WaitForTimeout ms))) es \<and>
        length (filter (\<lambda>e. e = Did (Goto url t)) es) \<le> left"
proof (induction left arbitrary: attempt w)
  case 0
  then show ?case by simp
next
  case (Suc left)
  show ?case
  proof (cases "do_act A (Goto url t) w")
    case (Return x w1)
    with Suc.prems have "w' = w1" by simp
    with do_act_trace(1) [OF Return] show ?thesis by simp
  next
    case (Raise e w1)
    note t1 = do_act_trace(2) [OF Raise]
    show ?thesis
    proof (cases "attempt < r")
      case False
      with Suc.prems Raise have "w' = w1" by simp
      with t1 show ?thesis by simp
    next
      case True
      show ?thesis
      proof (cases "do_act A (WaitForTimeout (800 * attempt)) w1")
        case (Return y w2)
        with Suc.prems Raise True
        have "goto_with_retries_loop A url t r left (attempt + 1) w2 = Return ok w'" by simp
        from Suc.IH [OF this] obtain es where
          es: "trace w' = trace w2 @ es"
              "list_all (\<lambda>e. e = Did (Goto url t) \<or> (\<exists>ms. e = Did (WaitForTimeout ms))) es"
              "length (filter (\<lambda>e. e = Did (Goto url t)) es) \<le> left" by blast
        have t2: "trace w2 = trace w @ [Did (Goto url t), Did (WaitForTimeout (800 * attempt))]"
          using do_act_trace(1) [OF Return] t1 by simp
        show ?thesis
          by (rule exI [of _ "[Did (Goto url t), Did (WaitForTimeout (800 * attempt))] @ es"])
             (use es t2 in simp)
      next
        case (Raise e2 w2)
        with Suc.prems \<open>do_act A (Goto url t) w = Raise e w1\<close> True show ?thesis by simp
      next
        case Diverge
        then show ?thesis using do_act_not_Diverge by blast
      qed
    qed
  next
    case Diverge
    then show ?thesis using do_act_not_Diverge by blast
  qed
qed

lemma goto_with_retries_trace:
  "goto_with_retries A url t r w = Return ok w' \<Longrightarrow>
   \<exists>es. trace w' = trace w @ es \<and>
        list_all (\<lambda>e. e = Did (Goto url t) \<or> (\<exists>ms. e = Did (WaitForTimeout ms))) es \<and>
        length (filter (\<lambda>e. e = Did (Goto url t)) es) \<le> nat r"
  unfolding goto_with_retries_def by (rule goto_with_retries_loop_trace)

text \<open>
  Claim C2. In the main loop, when the last confirmed cursor is \<open>C\<close> and the cursor of the
  page is \<open>k < C\<close>, the driver calls \<open>goto_with_retries\<close> once, for the URL rewritten to
  cursor \<open>C + 1\<close>, before anything else: the calls made up to its return are navigations to
  that URL (at most \<open>navigation_retries\<close> of them) and the waits between them. If the
  navigation fails, or the cursor then read is absent or below \<open>C\<close>, the pass through the
  loop body ends with \<open>break\<close>, the local variables and the page as the navigation left
  them, and the run returns; otherwise the page cycle starts from there.
\<close>

theorem rollback_recovery_once:
  assumes "\<not> page_is_closed A (env w)"
    and "last_completed_page s = Some C"
    and "get_page_number_from_url L (page_url A (env w)) = Some k"
    and "k < C"
    and "rurl = with_page_number L (page_url A (env w)) (C + 1)"
    and "t = py_trunc (navigation_timeout_seconds a * 1000)"
    and "goto_with_retries A rurl t (navigation_retries a) w = Return recovered w'"
  shows "(\<exists>es. trace w' = trace w @ es \<and>
            list_all (\<lambda>e. e = Did (Goto rurl t) \<or> (\<exists>ms. e = Did (WaitForTimeout ms))) es \<and>
            length (filter (\<lambda>e. e = Did (Goto rurl t)) es) \<le> nat (navigation_retries a)) \<and>
         (if recovered \<and>
             (case get_page_number_from_url L (page_url A (env w')) of
                None \<Rightarrow> False | Some c \<Rightarrow> C \<le> c)
          then main_body fuel A L a s w =
                 page_cycle fuel A L a (get_page_number_from_url L (page_url A (env w'))) s w'
          else main_body fuel A L a s w = Return (Break, s) w' \<and>
               main_loop (Suc fuel) A L a s w = Return s w')"
proof -
  have tr: "\<exists>es. trace w' = trace w @ es \<and>
            list_all (\<lambda>e. e = Did (Goto rurl t) \<or> (\<exists>ms. e = Did (WaitForTimeout ms))) es \<and>
            length (filter (\<lambda>e. e = Did (Goto rurl t)) es) \<le> nat (navigation_retries a)"
    by (rule goto_with_retries_trace) (rule assms(7))
  have rc: "rollback_check A L a s w =
      (if \<not> recovered then Return Break_loop w'
       else (case get_page_number_from_url L (page_url A (env w')) of
               None \<Rightarrow> Return Break_loop w'
             | Some c \<Rightarrow> if c < C then Return Break_loop w' else Return (Next (Some c)) w'))"
    using assms(2-4) assms(7) [unfolded assms(5,6)]
    by (simp add: rollback_check_def Let_def)
  have mb: "main_body fuel A L a s w =
      (if recovered \<and> (case get_page_number_from_url L (page_url A (env w')) of
                None \<Rightarrow> False | Some c \<Rightarrow> C \<le> c)
       then page_cycle fuel A L a (get_page_number_from_url L (page_url A (env w'))) s w'
       else Return (Break, s) w')"
    using assms(1) by (auto simp: main_body_def rc split: option.splits)
  show ?thesis
    using tr mb by (auto split: option.splits)
qed


text \<open>
  Claim C6. When the page has no element with the dialog role (the count of
  \<open>get_by_role("dialog")\<close> is 0), \<open>resolve_any_open_modal\<close> returns \<open>Clear\<close> at once: the
  count is the only call it makes (no click, no wait), and the main loop goes on with
  its local variables unchanged.
\<close>

theorem resolve_clear_without_dialog:
  assumes "count A (GetByRole ''dialog'' None) (env w) = (Inr 0, b)"
  shows "resolve_any_open_modal fuel A label timeout_ms w =
           Return Clear \<lparr>env = b, trace = trace w @ [Counted (GetByRole ''dialog'' None)]\<rparr> \<and>
         resolve_lingering fuel A a s w =
           Return (Next (), s) \<lparr>env = b, trace = trace w @ [Counted (GetByRole ''dialog'' None)]\<rparr>"
  using assms
  by (simp add: resolve_lingering_def resolve_any_open_modal_def is_dialog_open_def do_count_def)

section \<open>The outcomes of the invite modal\<close>

lemma blocked_or_range:
  assumes "blocked_or A f w = Return st w'"
    and "\<And>w0 x w1. f w0 = Return x w1 \<Longrightarrow> x \<in> S"
    and "Blocked \<in> S"
  shows "st \<in> S"
proof (cases "has_modal_error A w")
  case (Return err w1)
  show ?thesis
  proof (cases err)
    case True
    with assms(1) Return have "seq (close_modal_if_open A w1) (\<lambda>_ w. Return Blocked w) = Return st w'"
      by (simp add: blocked_or_def)
    then have "st = Blocked" by (cases "close_modal_if_open A w1") auto
    with assms(3) show ?thesis by simp
  next
    case False
    with assms(1) Return have "f w1 = Return st w'" by (simp add: blocked_or_def)
    then show ?thesis by (rule assms(2))
  qed
next
  case (Raise e w1)
  with assms(1) show ?thesis by (simp add: blocked_or_def)
next
  case Diverge
  with assms(1) show ?thesis by (simp add: blocked_or_def)
qed

lemma process_invite_modal_loop_range:
  "process_invite_modal_loop fuel A deadline w = Return (Some st) w' \<Longrightarrow> st = Blocked \<or> st = Sent"
proof (induction fuel arbitrary: w)
  case 0
  then show ?case by simp
next
  case (Suc fuel)
  show ?case
  proof (cases "do_time A w")
    case (Return t w1)
    show ?thesis
    proof (cases "t < deadline")
      case False
      with Suc.prems Return show ?thesis by simp
    next
      case True
      show ?thesis
      proof (cases "has_modal_error A w1")
        case r2: (Return err w2)
        show ?thesis
        proof (cases err)
          case True
          with Suc.prems Return \<open>t < deadline\<close> r2 show ?thesis
            by (cases "close_modal_if_open A w2") auto
        next
          case False
          show ?thesis
          proof (cases "is_dialog_open A w2")
            case r3: (Return opened w3)
            show ?thesis
            proof (cases opened)
              case False
              with Suc.prems Return \<open>t < deadline\<close> r2 \<open>\<not> err\<close> r3 show ?thesis by simp
            next
              case True
              with Suc.prems Return \<open>t < deadline\<close> r2 \<open>\<not> err\<close> r3 show ?thesis
                by (cases "do_act A (WaitForTimeout 300) w3") (auto dest: Suc.IH)
            qed
          next
            case (Raise e w3)
            with Suc.prems Return \<open>t < deadline\<close> r2 \<open>\<not> err\<close> show ?thesis by simp
          next
            case Diverge
            with Suc.prems Return \<open>t < deadline\<close> r2 \<open>\<not> err\<close> show ?thesis by simp
          qed
        qed
      next
        case (Raise e w2)
        with Suc.prems Return True show ?thesis by simp
      next
        case Diverge
        with Suc.prems Return True show ?thesis by simp
      qed
    qed
  next
    case (Raise e w1)
    with Suc.prems show ?thesis by simp
  next
    case Diverge
    with Suc.prems show ?thesis by simp
  qed
qed

lemma process_invite_modal_range:
  assumes "process_invite_modal fuel A label timeout_ms w = Return st w'"
  shows "st \<in> invite_outcomes"
proof (cases "do_act A (WaitForVisible (First (GetByRole ''button'' (Some label))) timeout_ms) w")
  case (Raise e w1)
  with assms show ?thesis by (simp add: process_invite_modal_def invite_outcomes_def)
next
  case Diverge
  with assms show ?thesis by (simp add: process_invite_modal_def)
next
  case (Return x w1)
  let ?button = "First (GetByRole ''button'' (Some label))"
  let ?after = "\<lambda>w. case do_act A (Click ?button 10000) w of
              Return _ w \<Rightarrow>
                seq (do_time A w) (\<lambda>t w.
                  let deadline = t + real_of_int timeout_ms / 1000 in
                  seq (process_invite_modal_loop fuel A deadline w) (\<lambda>r w.
                    case r of
                      Some status \<Rightarrow> Return status w
                    | None \<Rightarrow>
                        blocked_or A (\<lambda>w.
                          seq (close_modal_if_open A w) (\<lambda>closed w. Return Stalled_modal w)) w))
            | Raise (PlaywrightTimeoutError m) w \<Rightarrow> blocked_or A (\<lambda>w. Return Send_timeout w) w
            | Raise (PlaywrightError m) w \<Rightarrow> blocked_or A (\<lambda>w. Return Send_error w) w
            | Diverge \<Rightarrow> Diverge"
  from assms Return have b: "blocked_or A ?after w1 = Return st w'"
    by (simp add: process_invite_modal_def)
  have inner: "x \<in> invite_outcomes" if h: "?after w0 = Return x w2" for w0 x w2
  proof (cases "do_act A (Click ?button 10000) w0")
    case (Raise e w3)
    show ?thesis
    proof (cases e)
      case (PlaywrightTimeoutError m)
      with h Raise have "blocked_or A (\<lambda>w. Return Send_timeout w) w3 = Return x w2" by simp
      then show ?thesis by (rule blocked_or_range) (auto simp: invite_outcomes_def)
    next
      case (PlaywrightError m)
      with h Raise have "blocked_or A (\<lambda>w. Return Send_error w) w3 = Return x w2" by simp
      then show ?thesis by (rule blocked_or_range) (auto simp: invite_outcomes_def)
    qed
  next
    case Diverge
    with h show ?thesis by simp
  next
    case r: (Return y w3)
    obtain t w4 where tm: "do_time A w3 = Return t w4"
      by (cases "time_time A (env w3)") (simp add: do_time_def)
    show ?thesis
    proof (cases "process_invite_modal_loop fuel A (t + real_of_int timeout_ms / 1000) w4")
      case (Return rr w5)
      show ?thesis
      proof (cases rr)
        case (Some status)
        with h r tm Return have "x = status" by (simp add: Let_def)
        moreover have "status = Blocked \<or> status = Sent"
          using process_invite_modal_loop_range Return Some by blast
        ultimately show ?thesis by (auto simp: invite_outcomes_def)
      next
        case None
        with h r tm Return
        have "blocked_or A (\<lambda>w. seq (close_modal_if_open A w) (\<lambda>closed w. Return Stalled_modal w)) w5
              = Return x w2" by (simp add: Let_def)
        then show ?thesis
        proof (rule blocked_or_range)
          fix w0 x' w1'
          assume "seq (close_modal_if_open A w0) (\<lambda>closed w. Return Stalled_modal w) = Return x' w1'"
          then show "x' \<in> invite_outcomes"
            by (cases "close_modal_if_open A w0") (auto simp: invite_outcomes_def)
        qed (simp add: invite_outcomes_def)
      qed
    next
      case (Raise e w5)
      with h r tm show ?thesis by (simp add: Let_def)
    next
      case Diverge
      with h r tm show ?thesis by (simp add: Let_def)
    qed
  qed
  have bl: "Blocked \<in> invite_outcomes" by (simp add: invite_outcomes_def)
  show ?thesis by (rule blocked_or_range [OF b inner bl])
qed

section \<open>The tallies, the click limit and the next-page fallback\<close>

text \<open>
  Claim C5, amended. Of the outcomes of \<open>process_invite_modal\<close> other than \<open>Sent\<close>
  (it returns nothing outside \<open>invite_outcomes\<close>), the four failures \<open>Blocked\<close>,
  \<open>Send_timeout\<close>, \<open>Send_error\<close> and \<open>Stalled_modal\<close> add one to the skip tally, put the
  control in the skip registry and continue the inner loop; \<open>No_modal\<close> adds nothing to
  the skip tally: the action goes on to the confirmation poll and is counted as a
  click. None of them ends the run with a \<open>break\<close> unless the click limit is reached.
\<close>

theorem modal_outcome_tally:
  assumes "process_invite_modal fuel A (send_request_label a)
             (py_trunc (modal_timeout_seconds a * 1000)) w = Return st w1"
  shows "st \<in> invite_outcomes \<and>
         (st \<in> failed_statuses \<longrightarrow>
            after_click fuel A a selected_id cnt s w =
              Return (Continue_loop,
                      s\<lparr>skipped_button_ids := insert selected_id (skipped_button_ids s),
                        skipped_this_page := skipped_this_page s + 1,
                        total_skipped := total_skipped s + 1\<rparr>) (delay A a w1)) \<and>
         (st = No_modal \<longrightarrow>
            (\<forall>changed w2. wait_for_connect_change fuel A (button_label a) cnt 6000 w1 = Return changed w2 \<longrightarrow>
               (\<exists>fl s' w3. after_click fuel A a selected_id cnt s w = Return (fl, s') w3 \<and>
                  total_skipped s' = total_skipped s \<and>
                  total_clicked s' = total_clicked s + 1 \<and>
                  (fl = Break_loop \<longrightarrow> max_clicks a \<noteq> 0 \<and> max_clicks a \<le> total_clicked s'))))"
proof -
  have r: "st \<in> invite_outcomes" by (rule process_invite_modal_range) (rule assms)
  have f: "st \<in> failed_statuses \<Longrightarrow>
            after_click fuel A a selected_id cnt s w =
              Return (Continue_loop,
                      s\<lparr>skipped_button_ids := insert selected_id (skipped_button_ids s),
                        skipped_this_page := skipped_this_page s + 1,
                        total_skipped := total_skipped s + 1\<rparr>) (delay A a w1)"
    using assms by (simp add: after_click_def skip_selected_def)
  have n: "\<exists>fl s' w3. after_click fuel A a selected_id cnt s w = Return (fl, s') w3 \<and>
                  total_skipped s' = total_skipped s \<and>
                  total_clicked s' = total_clicked s + 1 \<and>
                  (fl = Break_loop \<longrightarrow> max_clicks a \<noteq> 0 \<and> max_clicks a \<le> total_clicked s')"
    if "st = No_modal" "wait_for_connect_change fuel A (button_label a) cnt 6000 w1 = Return changed w2"
    for changed w2
    using assms that by (simp add: after_click_def failed_statuses_def Let_def)
  from r f n show ?thesis by blast
qed

text \<open>
  Claim C10. After the primary click has returned and the modal workflow has returned
  a status that is not a failure, the click is counted whatever the confirmation poll
  returns: the result of the pass through the loop body does not mention the boolean
  \<open>changed\<close> that \<open>wait_for_connect_change\<close> returned.
\<close>

theorem click_counted_without_confirmation:
  assumes "resolve_lingering fuel A a s w = Return (Next (), s1) w1"
    and "select_button fuel A a s1 w1 = Return (Next (selected, selected_id, cnt), s2) w2"
    and "click_selected A a selected selected_id s2 w2 = Return (Next (), s3) w3"
    and "process_invite_modal fuel A (send_request_label a)
           (py_trunc (modal_timeout_seconds a * 1000)) w3 = Return st w4"
    and "st \<notin> failed_statuses"
    and "wait_for_connect_change fuel A (button_label a) cnt 6000 w4 = Return changed w5"
  shows "inner_body fuel A a s w =
           (if max_clicks a \<noteq> 0 \<and> max_clicks a \<le> total_clicked s3 + 1
            then Return (Break, s3\<lparr>total_clicked := total_clicked s3 + 1,
                                   page_clicks := page_clicks s3 + 1, stop := True\<rparr>) w5
            else Return (Continue, s3\<lparr>total_clicked := total_clicked s3 + 1,
                                      page_clicks := page_clicks s3 + 1\<rparr>) (delay A a w5))"
  using assms by (simp add: inner_body_def after_click_def Let_def)

text \<open>
  Claim C7. When the pass through the inner loop body makes a successful click that
  brings the click counter to the limit (\<open>max_clicks\<close> is set and is at most the new
  count), the body ends with \<open>break\<close> and \<open>stop\<close> set, in the world the confirmation
  poll returned: the inner loop returns there without another pass (no further control
  is tried, not even the delay is taken), what follows the inner loop breaks the outer
  loop without calling \<open>go_to_next_page\<close>, and the run returns in that same world.
\<close>

theorem max_clicks_stops_run:
  assumes "resolve_lingering fuel A a s w = Return (Next (), s1) w1"
    and "select_button fuel A a s1 w1 = Return (Next (selected, selected_id, cnt), s2) w2"
    and "click_selected A a selected selected_id s2 w2 = Return (Next (), s3) w3"
    and "process_invite_modal fuel A (send_request_label a)
           (py_trunc (modal_timeout_seconds a * 1000)) w3 = Return st w4"
    and "st \<notin> failed_statuses"
    and "wait_for_connect_change fuel A (button_label a) cnt 6000 w4 = Return changed w5"
    and "max_clicks a \<noteq> 0"
    and "max_clicks a \<le> total_clicked s3 + 1"
    and "sf = s3\<lparr>total_clicked := total_clicked s3 + 1, page_clicks := page_clicks s3 + 1, stop := True\<rparr>"
  shows "inner_body fuel A a s w = Return (Break, sf) w5 \<and>
         inner_loop (Suc fuel) A a s w = Return sf w5 \<and>
         page_finish A L a current_page_num sf w5 = Return (Break, sf) w5 \<and>
         (\<forall>n s0 w0. inner_loop n A a
              (s0\<lparr>pages_processed := pages_processed s0 + 1, page_clicks := 0,
                  skipped_this_page := 0, skipped_button_ids := {}\<rparr>) w0 = Return sf w5 \<longrightarrow>
            page_cycle n A L a current_page_num s0 w0 = Return (Break, sf) w5) \<and>
         (\<forall>n s0 w0. main_body n A L a s0 w0 = Return (Break, sf) w5 \<longrightarrow>
            main_loop (Suc n) A L a s0 w0 = Return sf w5)"
proof -
  have b: "inner_body fuel A a s w = Return (Break, sf) w5"
    using assms by (simp add: inner_body_def after_click_def Let_def)
  have l: "inner_loop (Suc fuel) A a s w = Return sf w5"
    by (simp add: b)
  have st: "stop sf" by (simp add: assms(9))
  have p: "page_finish A L a current_page_num sf w5 = Return (Break, sf) w5"
    using st by (simp add: page_finish_def)
  have c: "page_cycle n A L a current_page_num s0 w0 = Return (Break, sf) w5"
    if "inner_loop n A a
              (s0\<lparr>pages_processed := pages_processed s0 + 1, page_clicks := 0,
                  skipped_this_page := 0, skipped_button_ids := {}\<rparr>) w0 = Return sf w5"
    for n s0 w0
    using that p by (simp add: page_cycle_def Let_def)
  have m: "main_loop (Suc n) A L a s0 w0 = Return sf w5"
    if "main_body n A L a s0 w0 = Return (Break, sf) w5" for n s0 w0
    using that by simp
  from b l p c m show ?thesis by blast
qed

text \<open>
  Claim C8, amended. When the URL has no cursor and no expected cursor is given,
  \<open>go_to_next_page\<close> counts the controls matching the next-page selector. With none, it
  reports failure and clicks nothing. With one, it clicks the first: if the click
  raises, it reports failure (whatever the URL is by then); if the click and the wait
  for the load state return, it reports success exactly when the URL then differs
  from the URL before.
\<close>

theorem next_page_fallback:
  assumes "get_page_number_from_url L (page_url A (env w)) = None"
    and "do_count A (First (Locator next_selector)) w = Return n w1"
  shows "(n = 0 \<longrightarrow>
            go_to_next_page A L timeout_ms None max_attempts retries w =
              Return (False, get_page_number_from_url L (page_url A (env w1))) w1) \<and>
         (0 < n \<longrightarrow>
            (\<forall>e w2. do_act A (Click (First (Locator next_selector)) 10000) w1 = Raise e w2 \<longrightarrow>
               go_to_next_page A L timeout_ms None max_attempts retries w =
                 Return (False, get_page_number_from_url L (page_url A (env w2))) w2) \<and>
            (\<forall>w2 w3. do_act A (Click (First (Locator next_selector)) 10000) w1 = Return () w2 \<longrightarrow>
               wait_for_load_state A timeout_ms w2 = Return () w3 \<longrightarrow>
               go_to_next_page A L timeout_ms None max_attempts retries w =
                 Return (page_url A (env w3) \<noteq> page_url A (env w),
                         get_page_number_from_url L (page_url A (env w3))) w3))"
  using assms by (simp add: go_to_next_page_def Let_def)

section \<open>Runs on the simulated page\<close>

lemmas sim_eval =
  do_count_def do_act_def do_time_def do_get_attribute_def do_sleep_def delay_def
  sim_api_def sim_perform_def sim_click_def sim_get_attribute_def sim_timeout_def
  start_def sim_page_def sim_args_def initial_locals_def py_trunc_def Let_def

theorem resolve_clear_without_dialog_witness:
  "count sim_api (GetByRole ''dialog'' None) (env (start sim_page)) = (Inr 0, sim_page) \<and>
   resolve_any_open_modal 1 sim_api ''Send Request'' 8000 (start sim_page) =
     Return Clear \<lparr>env = sim_page, trace = [Counted (GetByRole ''dialog'' None)]\<rparr> \<and>
   resolve_lingering 1 sim_api sim_args initial_locals (start sim_page) =
     Return (Next (), initial_locals) \<lparr>env = sim_page, trace = [Counted (GetByRole ''dialog'' None)]\<rparr>"
proof -
  have h: "count sim_api (GetByRole ''dialog'' None) (env (start sim_page)) = (Inr 0, sim_page)"
    by (simp add: sim_api_def start_def sim_page_def)
  show ?thesis
    using h resolve_clear_without_dialog [OF h, of 1 "''Send Request''" 8000 sim_args initial_locals]
    by (simp add: start_def)
qed

theorem rollback_recovery_once_witness:
  "get_page_number_from_url generic_urllib
     (page_url sim_api (env (start (sim_page\<lparr>sim_goto_times_out := True\<rparr>)))) = Some 3 \<and>
   with_page_number generic_urllib
     (page_url sim_api (env (start (sim_page\<lparr>sim_goto_times_out := True\<rparr>)))) (5 + 1)
     = ''https://example.com/members?page=6'' \<and>
   goto_with_retries sim_api ''https://example.com/members?page=6'' 15000 (navigation_retries sim_args)
       (start (sim_page\<lparr>sim_goto_times_out := True\<rparr>)) =
     Return False
       \<lparr>env = sim_page\<lparr>sim_goto_times_out := True, sim_clock := 737 / 5\<rparr>,
        trace = [Did (Goto ''https://example.com/members?page=6'' 15000), Did (WaitForTimeout 800),
                 Did (Goto ''https://example.com/members?page=6'' 15000), Did (WaitForTimeout 1600),
                 Did (Goto ''https://example.com/members?page=6'' 15000)]\<rparr> \<and>
   main_loop (Suc 1) sim_api generic_urllib sim_args (initial_locals\<lparr>last_completed_page := Some 5\<rparr>)
       (start (sim_page\<lparr>sim_goto_times_out := True\<rparr>)) =
     Return (initial_locals\<lparr>last_completed_page := Some 5\<rparr>)
       \<lparr>env = sim_page\<lparr>sim_goto_times_out := True, sim_clock := 737 / 5\<rparr>,
        trace = [Did (Goto ''https://example.com/members?page=6'' 15000), Did (WaitForTimeout 800),
                 Did (Goto ''https://example.com/members?page=6'' 15000), Did (WaitForTimeout 1600),
                 Did (Goto ''https://example.com/members?page=6'' 15000)]\<rparr>"
proof -
  let ?w = "start (sim_page\<lparr>sim_goto_times_out := True\<rparr>)"
  let ?s = "initial_locals\<lparr>last_completed_page := Some 5\<rparr>"
  let ?w' = "\<lparr>env = sim_page\<lparr>sim_goto_times_out := True, sim_clock := 737 / 5\<rparr>,
        trace = [Did (Goto ''https://example.com/members?page=6'' 15000), Did (WaitForTimeout 800),
                 Did (Goto ''https://example.com/members?page=6'' 15000), Did (WaitForTimeout 1600),
                 Did (Goto ''https://example.com/members?page=6'' 15000)]\<rparr>"
  have u: "page_url sim_api (env ?w) = ''https://example.com/members?page=3''"
    by (simp add: sim_eval)
  have g: "get_page_number_from_url generic_urllib ''https://example.com/members?page=3'' = Some 3"
    by code_simp
  have r: "with_page_number generic_urllib ''https://example.com/members?page=3'' (5 + 1)
             = ''https://example.com/members?page=6''"
    by code_simp
  have t: "py_trunc (navigation_timeout_seconds sim_args * 1000) = 15000"
    by (simp add: sim_eval)
  have n: "navigation_retries sim_args = 3" by (simp add: sim_eval)
  have go: "goto_with_retries sim_api ''https://example.com/members?page=6'' 15000 3 ?w = Return False ?w'"
    by (simp add: goto_with_retries_def eval_nat_numeral sim_eval)
  have c: "\<not> page_is_closed sim_api (env ?w)" by (simp add: sim_eval)
  have l: "last_completed_page ?s = Some 5" by simp
  have g': "get_page_number_from_url generic_urllib (page_url sim_api (env ?w)) = Some 3"
    by (simp only: u g)
  have r': "''https://example.com/members?page=6'' =
      with_page_number generic_urllib (page_url sim_api (env ?w)) (5 + 1)"
    by (simp only: u r)
  have go': "goto_with_retries sim_api ''https://example.com/members?page=6'' 15000
      (navigation_retries sim_args) ?w = Return False ?w'"
    by (simp only: n go)
  have lt: "(3::int) < 5" by simp
  note th = rollback_recovery_once [OF c l g' lt r' t [symmetric] go', of 1]
  from th have "main_loop (Suc 1) sim_api generic_urllib sim_args ?s ?w = Return ?s ?w'"
    by simp
  with g' r' go' show ?thesis by simp
qed

lemmas modal_eval =
  process_invite_modal_def blocked_or_def has_modal_error_def close_modal_if_open_def
  is_dialog_open_def dialog_first_def error_patterns_def wait_for_connect_change_def
  resolve_any_open_modal_def failed_statuses_def

text \<open>
  Claim C5, as stated, fails for \<open>No_modal\<close>: when no invite modal appears after the
  click, the skip tally stays 0 and the click is counted.
\<close>

theorem no_modal_counts_as_click_counterexample:
  "process_invite_modal 1 sim_api (send_request_label sim_args)
       (py_trunc (modal_timeout_seconds sim_args * 1000)) (start (sim_page\<lparr>sim_buttons := [None]\<rparr>)) =
     Return No_modal
       \<lparr>env = sim_page\<lparr>sim_buttons := [None], sim_clock := 108\<rparr>,
        trace = [Did (WaitForVisible (First (GetByRole ''button'' (Some ''Send Request''))) 8000)]\<rparr> \<and>
   after_click 1 sim_api sim_args ''a1'' 2 initial_locals (start (sim_page\<lparr>sim_buttons := [None]\<rparr>)) =
     Return (Continue_loop, initial_locals\<lparr>total_clicked := 1, page_clicks := 1\<rparr>)
       \<lparr>env = sim_page\<lparr>sim_buttons := [None], sim_clock := 110\<rparr>,
        trace = [Did (WaitForVisible (First (GetByRole ''button'' (Some ''Send Request''))) 8000),
                 ReadTime, ReadTime, Counted (GetByRole ''button'' (Some ''Connect'')), Slept 2]\<rparr> \<and>
   total_skipped (initial_locals\<lparr>total_clicked := 1, page_clicks := 1\<rparr>) = total_skipped initial_locals"
  by (simp add: after_click_def modal_eval sim_eval)

theorem modal_outcome_tally_witness:
  "process_invite_modal 1 sim_api (send_request_label sim_args)
       (py_trunc (modal_timeout_seconds sim_args * 1000))
       (start (sim_page\<lparr>sim_dialog := True, sim_dialog_error := True\<rparr>)) =
     Return Blocked
       \<lparr>env = sim_page\<lparr>sim_dialog := False, sim_dialog_error := True\<rparr>,
        trace = [Did (WaitForVisible (First (GetByRole ''button'' (Some ''Send Request''))) 8000),
                 Counted (First (GetByRole ''dialog'' None)),
                 Counted (InGetByText (First (GetByRole ''dialog'' None)) ''Cannot read properties of undefined''),
                 Counted (InGetByText (First (GetByRole ''dialog'' None)) ''Something went wrong''),
                 Counted (First (GetByRole ''dialog'' None)),
                 Counted (InGetByRole (First (GetByRole ''dialog'' None)) ''button'' (Some ''Cancel'')),
                 Did (Click (First (InGetByRole (First (GetByRole ''dialog'' None)) ''button'' (Some ''Cancel''))) 5000)]\<rparr> \<and>
   Blocked \<in> failed_statuses \<and>
   after_click 1 sim_api sim_args ''a1'' 2 initial_locals
       (start (sim_page\<lparr>sim_dialog := True, sim_dialog_error := True\<rparr>)) =
     Return (Continue_loop,
             initial_locals\<lparr>skipped_button_ids := {''a1''}, skipped_this_page := 1, total_skipped := 1\<rparr>)
       \<lparr>env = sim_page\<lparr>sim_dialog := False, sim_dialog_error := True, sim_clock := 102\<rparr>,
        trace = [Did (WaitForVisible (First (GetByRole ''button'' (Some ''Send Request''))) 8000),
                 Counted (First (GetByRole ''dialog'' None)),
                 Counted (InGetByText (First (GetByRole ''dialog'' None)) ''Cannot read properties of undefined''),
                 Counted (InGetByText (First (GetByRole ''dialog'' None)) ''Something went wrong''),
                 Counted (First (GetByRole ''dialog'' None)),
                 Counted (InGetByRole (First (GetByRole ''dialog'' None)) ''button'' (Some ''Cancel'')),
                 Did (Click (First (InGetByRole (First (GetByRole ''dialog'' None)) ''button'' (Some ''Cancel''))) 5000),
                 Slept 2]\<rparr>"
proof -
  let ?w = "start (sim_page\<lparr>sim_dialog := True, sim_dialog_error := True\<rparr>)"
  let ?w1 = "\<lparr>env = sim_page\<lparr>sim_dialog := False, sim_dialog_error := True\<rparr>,
        trace = [Did (WaitForVisible (First (GetByRole ''button'' (Some ''Send Request''))) 8000),
                 Counted (First (GetByRole ''dialog'' None)),
                 Counted (InGetByText (First (GetByRole ''dialog'' None)) ''Cannot read properties of undefined''),
                 Counted (InGetByText (First (GetByRole ''dialog'' None)) ''Something went wrong''),
                 Counted (First (GetByRole ''dialog'' None)),
                 Counted (InGetByRole (First (GetByRole ''dialog'' None)) ''button'' (Some ''Cancel'')),
                 Did (Click (First (InGetByRole (First (GetByRole ''dialog'' None)) ''button'' (Some ''Cancel''))) 5000)]\<rparr>"
  have p: "process_invite_modal 1 sim_api (send_request_label sim_args)
       (py_trunc (modal_timeout_seconds sim_args * 1000)) ?w = Return Blocked ?w1"
    by (simp add: modal_eval sim_eval)
  have f: "Blocked \<in> failed_statuses" by (simp add: failed_statuses_def)
  have d: "delay sim_api sim_args ?w1 =
     \<lparr>env = sim_page\<lparr>sim_dialog := False, sim_dialog_error := True, sim_clock := 102\<rparr>,
      trace = trace ?w1 @ [Slept 2]\<rparr>"
    by (simp add: sim_eval)
  from modal_outcome_tally [OF p, of "''a1''" 2 initial_locals] f
  have "after_click 1 sim_api sim_args ''a1'' 2 initial_locals ?w =
      Return (Continue_loop,
              initial_locals\<lparr>skipped_button_ids := insert ''a1'' (skipped_button_ids initial_locals),
                skipped_this_page := skipped_this_page initial_locals + 1,
                total_skipped := total_skipped initial_locals + 1\<rparr>) (delay sim_api sim_args ?w1)"
    by blast
  then have "after_click 1 sim_api sim_args ''a1'' 2 initial_locals ?w =
      Return (Continue_loop,
              initial_locals\<lparr>skipped_button_ids := {''a1''}, skipped_this_page := 1, total_skipped := 1\<rparr>)
        \<lparr>env = sim_page\<lparr>sim_dialog := False, sim_dialog_error := True, sim_clock := 102\<rparr>,
         trace = trace ?w1 @ [Slept 2]\<rparr>"
    unfolding d by (simp add: initial_locals_def)
  with p f show ?thesis by simp
qed

text \<open>
  Claim C8, as stated, fails when the click on the next-page control raises: the URL
  has changed, and \<open>go_to_next_page\<close> reports failure.
\<close>

theorem next_click_raises_counterexample:
  "get_page_number_from_url generic_urllib ''https://example.com/members'' = None \<and>
   go_to_next_page sim_api generic_urllib 15000 None 3 3
       (start (sim_page\<lparr>sim_url := ''https://example.com/members'',
                         sim_next_href := Some ''https://example.com/members/2'',
                         sim_next_click_times_out := True\<rparr>)) =
     Return (False, None)
       \<lparr>env = sim_page\<lparr>sim_url := ''https://example.com/members/2'',
                        sim_next_href := Some ''https://example.com/members/2'',
                        sim_next_click_times_out := True\<rparr>,
        trace = [Counted (First (Locator next_selector)),
                 Did (Click (First (Locator next_selector)) 10000)]\<rparr> \<and>
   ''https://example.com/members/2'' \<noteq> ''https://example.com/members''"
proof -
  have g1: "get_page_number_from_url generic_urllib ''https://example.com/members'' = None"
    by code_simp
  have g2: "get_page_number_from_url generic_urllib ''https://example.com/members/2'' = None"
    by code_simp
  show ?thesis
    by (simp add: go_to_next_page_def g1 g2 sim_eval)
qed

theorem next_page_fallback_witness:
  "get_page_number_from_url generic_urllib ''https://example.com/members'' = None \<and>
   do_count sim_api (First (Locator next_selector))
       (start (sim_page\<lparr>sim_url := ''https://example.com/members'',
                         sim_next_href := Some ''https://example.com/members/2''\<rparr>)) =
     Return 1
       \<lparr>env = sim_page\<lparr>sim_url := ''https://example.com/members'',
                        sim_next_href := Some ''https://example.com/members/2''\<rparr>,
        trace = [Counted (First (Locator next_selector))]\<rparr> \<and>
   go_to_next_page sim_api generic_urllib 15000 None 3 3
       (start (sim_page\<lparr>sim_url := ''https://example.com/members'',
                         sim_next_href := Some ''https://example.com/members/2''\<rparr>)) =
     Return (True, None)
       \<lparr>env = sim_page\<lparr>sim_url := ''https://example.com/members/2'',
                        sim_next_href := Some ''https://example.com/members/2''\<rparr>,
        trace = [Counted (First (Locator next_selector)),
                 Did (Click (First (Locator next_selector)) 10000),
                 Did (WaitForLoadState 15000)]\<rparr>"
proof -
  let ?b = "sim_page\<lparr>sim_url := ''https://example.com/members'',
                     sim_next_href := Some ''https://example.com/members/2''\<rparr>"
  let ?b2 = "sim_page\<lparr>sim_url := ''https://example.com/members/2'',
                     sim_next_href := Some ''https://example.com/members/2''\<rparr>"
  let ?w1 = "\<lparr>env = ?b, trace = [Counted (First (Locator next_selector))]\<rparr>"
  let ?w2 = "\<lparr>env = ?b2, trace = [Counted (First (Locator next_selector)),
                 Did (Click (First (Locator next_selector)) 10000)]\<rparr>"
  let ?w3 = "\<lparr>env = ?b2, trace = [Counted (First (Locator next_selector)),
                 Did (Click (First (Locator next_selector)) 10000),
                 Did (WaitForLoadState 15000)]\<rparr>"
  have g1: "get_page_number_from_url generic_urllib ''https://example.com/members'' = None"
    by code_simp
  have g2: "get_page_number_from_url generic_urllib ''https://example.com/members/2'' = None"
    by code_simp
  have u: "page_url sim_api (env (start ?b)) = ''https://example.com/members''"
    by (simp add: sim_eval)
  have u3: "page_url sim_api (env ?w3) = ''https://example.com/members/2''"
    by (simp add: sim_eval)
  have g: "get_page_number_from_url generic_urllib (page_url sim_api (env (start ?b))) = None"
    by (simp only: u g1)
  have c: "do_count sim_api (First (Locator next_selector)) (start ?b) = Return 1 ?w1"
    by (simp add: sim_eval)
  have k: "do_act sim_api (Click (First (Locator next_selector)) 10000) ?w1 = Return () ?w2"
    by (simp add: sim_eval)
  have l: "wait_for_load_state sim_api 15000 ?w2 = Return () ?w3"
    by (simp add: wait_for_load_state_def sim_eval)
  from next_page_fallback [OF g c, of 15000 3 3] k l
  have "go_to_next_page sim_api generic_urllib 15000 None 3 3 (start ?b) =
      Return (page_url sim_api (env ?w3) \<noteq> page_url sim_api (env (start ?b)),
              get_page_number_from_url generic_urllib (page_url sim_api (env ?w3))) ?w3"
    by simp
  then have "go_to_next_page sim_api generic_urllib 15000 None 3 3 (start ?b) = Return (True, None) ?w3"
    unfolding u u3 g2 by simp
  with g1 c show ?thesis by simp
qed

lemmas inner_eval =
  resolve_lingering_def select_button_def select_from_def get_or_assign_button_id_def
  click_selected_def

theorem click_counted_without_confirmation_witness:
  "wait_for_connect_change 16 sim_api (button_label sim_args) 2 6000
       (\<lparr>env = sim_page\<lparr>sim_buttons := [Some ''a1'', Some ''a2''], sim_click_removes := False, sim_clock := 108\<rparr>, trace = [Counted (GetByRole ''dialog'' None), Counted (GetByRole ''button'' (Some ''Connect'')), GotAttribute (Nth (GetByRole ''button'' (Some ''Connect'')) 0) ''data-pmi-helper-id'', Did (ScrollIntoView (Nth (GetByRole ''button'' (Some ''Connect'')) 0) 5000), Did (Click (Nth (GetByRole ''button'' (Some ''Connect'')) 0) 10000), Did (WaitForVisible (First (GetByRole ''button'' (Some ''Send Request''))) 8000)]\<rparr>) =
     Return False
       (\<lparr>env = sim_page\<lparr>sim_buttons := [Some ''a1'', Some ''a2''], sim_click_removes := False, sim_clock := 114\<rparr>, trace = [Counted (GetByRole ''dialog'' None), Counted (GetByRole ''button'' (Some ''Connect'')), GotAttribute (Nth (GetByRole ''button'' (Some ''Connect'')) 0) ''data-pmi-helper-id'', Did (ScrollIntoView (Nth (GetByRole ''button'' (Some ''Connect'')) 0) 5000), Did (Click (Nth (GetByRole ''button'' (Some ''Connect'')) 0) 10000), Did (WaitForVisible (First (GetByRole ''button'' (Some ''Send Request''))) 8000), ReadTime, ReadTime, Counted (GetByRole ''button'' (Some ''Connect'')), Did (WaitForTimeout 400), ReadTime, Counted (GetByRole ''button'' (Some ''Connect'')), Did (WaitForTimeout 400), ReadTime, Counted (GetByRole ''button'' (Some ''Connect'')), Did (WaitForTimeout 400), ReadTime, Counted (GetByRole ''button'' (Some ''Connect'')), Did (WaitForTimeout 400), ReadTime, Counted (GetByRole ''button'' (Some ''Connect'')), Did (WaitForTimeout 400), ReadTime, Counted (GetByRole ''button'' (Some ''Connect'')), Did (WaitForTimeout 400), ReadTime, Counted (GetByRole ''button'' (Some ''Connect'')), Did (WaitForTimeout 400), ReadTime, Counted (GetByRole ''button'' (Some ''Connect'')), Did (WaitForTimeout 400), ReadTime, Counted (GetByRole ''button'' (Some ''Connect'')), Did (WaitForTimeout 400), ReadTime, Counted (GetByRole ''button'' (Some ''Connect'')), Did (WaitForTimeout 400), ReadTime, Counted (GetByRole ''button'' (Some ''Connect'')), Did (WaitForTimeout 400), ReadTime, Counted (GetByRole ''button'' (Some ''Connect'')), Did (WaitForTimeout 400), ReadTime, Counted (GetByRole ''button'' (Some ''Connect'')), Did (WaitForTimeout 400), ReadTime, Counted (GetByRole ''button'' (Some ''Connect'')), Did (WaitForTimeout 400), ReadTime, Counted (GetByRole ''button'' (Some ''Connect'')), Did (WaitForTimeout 400), ReadTime]\<rparr>) \<and>
   inner_body 16 sim_api sim_args initial_locals (start (sim_page\<lparr>sim_buttons := [Some ''a1'', Some ''a2''], sim_click_removes := False\<rparr>)) =
     Return (Continue, initial_locals\<lparr>total_clicked := 1, page_clicks := 1\<rparr>)
       (\<lparr>env = sim_page\<lparr>sim_buttons := [Some ''a1'', Some ''a2''], sim_click_removes := False, sim_clock := 116\<rparr>, trace = [Counted (GetByRole ''dialog'' None), Counted (GetByRole ''button'' (Some ''Connect'')), GotAttribute (Nth (GetByRole ''button'' (Some ''Connect'')) 0) ''data-pmi-helper-id'', Did (ScrollIntoView (Nth (GetByRole ''button'' (Some ''Connect'')) 0) 5000), Did (Click (Nth (GetByRole ''button'' (Some ''Connect'')) 0) 10000), Did (WaitForVisible (First (GetByRole ''button'' (Some ''Send Request''))) 8000), ReadTime, ReadTime, Counted (GetByRole ''button'' (Some ''Connect'')), Did (WaitForTimeout 400), ReadTime, Counted (GetByRole ''button'' (Some ''Connect'')), Did (WaitForTimeout 400), ReadTime, Counted (GetByRole ''button'' (Some ''Connect'')), Did (WaitForTimeout 400), ReadTime, Counted (GetByRole ''button'' (Some ''Connect'')), Did (WaitForTimeout 400), ReadTime, Counted (GetByRole ''button'' (Some ''Connect'')), Did (WaitForTimeout 400), ReadTime, Counted (GetByRole ''button'' (Some ''Connect'')), Did (WaitForTimeout 400), ReadTime, Counted (GetByRole ''button'' (Some ''Connect'')), Did (WaitForTimeout 400), ReadTime, Counted (GetByRole ''button'' (Some ''Connect'')), Did (WaitForTimeout 400), ReadTime, Counted (GetByRole ''button'' (Some ''Connect'')), Did (WaitForTimeout 400), ReadTime, Counted (GetByRole ''button'' (Some ''Connect'')), Did (WaitForTimeout 400), ReadTime, Counted (GetByRole ''button'' (Some ''Connect'')), Did (WaitForTimeout 400), ReadTime, Counted (GetByRole ''button'' (Some ''Connect'')), Did (WaitForTimeout 400), ReadTime, Counted (GetByRole ''button'' (Some ''Connect'')), Did (WaitForTimeout 400), ReadTime, Counted (GetByRole ''button'' (Some ''Connect'')), Did (WaitForTimeout 400), ReadTime, Counted (GetByRole ''button'' (Some ''Connect'')), Did (WaitForTimeout 400), ReadTime, Slept 2]\<rparr>)"
proof -
  let ?w = "start (sim_page\<lparr>sim_buttons := [Some ''a1'', Some ''a2''], sim_click_removes := False\<rparr>)"
  let ?w1 = "\<lparr>env = sim_page\<lparr>sim_buttons := [Some ''a1'', Some ''a2''], sim_click_removes := False\<rparr>, trace = [Counted (GetByRole ''dialog'' None)]\<rparr>"
  let ?w2 = "\<lparr>env = sim_page\<lparr>sim_buttons := [Some ''a1'', Some ''a2''], sim_click_removes := False\<rparr>, trace = [Counted (GetByRole ''dialog'' None), Counted (GetByRole ''button'' (Some ''Connect'')), GotAttribute (Nth (GetByRole ''button'' (Some ''Connect'')) 0) ''data-pmi-helper-id'']\<rparr>"
  let ?w3 = "\<lparr>env = sim_page\<lparr>sim_buttons := [Some ''a1'', Some ''a2''], sim_click_removes := False\<rparr>, trace = [Counted (GetByRole ''dialog'' None), Counted (GetByRole ''button'' (Some ''Connect'')), GotAttribute (Nth (GetByRole ''button'' (Some ''Connect'')) 0) ''data-pmi-helper-id'', Did (ScrollIntoView (Nth (GetByRole ''button'' (Some ''Connect'')) 0) 5000), Did (Click (Nth (GetByRole ''button'' (Some ''Connect'')) 0) 10000)]\<rparr>"
  let ?w4 = "\<lparr>env = sim_page\<lparr>sim_buttons := [Some ''a1'', Some ''a2''], sim_click_removes := False, sim_clock := 108\<rparr>, trace = [Counted (GetByRole ''dialog'' None), Counted (GetByRole ''button'' (Some ''Connect'')), GotAttribute (Nth (GetByRole ''button'' (Some ''Connect'')) 0) ''data-pmi-helper-id'', Did (ScrollIntoView (Nth (GetByRole ''button'' (Some ''Connect'')) 0) 5000), Did (Click (Nth (GetByRole ''button'' (Some ''Connect'')) 0) 10000), Did (WaitForVisible (First (GetByRole ''button'' (Some ''Send Request''))) 8000)]\<rparr>"
  let ?w5 = "\<lparr>env = sim_page\<lparr>sim_buttons := [Some ''a1'', Some ''a2''], sim_click_removes := False, sim_clock := 114\<rparr>, trace = [Counted (GetByRole ''dialog'' None), Counted (GetByRole ''button'' (Some ''Connect'')), GotAttribute (Nth (GetByRole ''button'' (Some ''Connect'')) 0) ''data-pmi-helper-id'', Did (ScrollIntoView (Nth (GetByRole ''button'' (Some ''Connect'')) 0) 5000), Did (Click (Nth (GetByRole ''button'' (Some ''Connect'')) 0) 10000), Did (WaitForVisible (First (GetByRole ''button'' (Some ''Send Request''))) 8000), ReadTime, ReadTime, Counted (GetByRole ''button'' (Some ''Connect'')), Did (WaitForTimeout 400), ReadTime, Counted (GetByRole ''button'' (Some ''Connect'')), Did (WaitForTimeout 400), ReadTime, Counted (GetByRole ''button'' (Some ''Connect'')), Did (WaitForTimeout 400), ReadTime, Counted (GetByRole ''button'' (Some ''Connect'')), Did (WaitForTimeout 400), ReadTime, Counted (GetByRole ''button'' (Some ''Connect'')), Did (WaitForTimeout 400), ReadTime, Counted (GetByRole ''button'' (Some ''Connect'')), Did (WaitForTimeout 400), ReadTime, Counted (GetByRole ''button'' (Some ''Connect'')), Did (WaitForTimeout 400), ReadTime, Counted (GetByRole ''button'' (Some ''Connect'')), Did (WaitForTimeout 400), ReadTime, Counted (GetByRole ''button'' (Some ''Connect'')), Did (WaitForTimeout 400), ReadTime, Counted (GetByRole ''button'' (Some ''Connect'')), Did (WaitForTimeout 400), ReadTime, Counted (GetByRole ''button'' (Some ''Connect'')), Did (WaitForTimeout 400), ReadTime, Counted (GetByRole ''button'' (Some ''Connect'')), Did (WaitForTimeout 400), ReadTime, Counted (GetByRole ''button'' (Some ''Connect'')), Did (WaitForTimeout 400), ReadTime, Counted (GetByRole ''button'' (Some ''Connect'')), Did (WaitForTimeout 400), ReadTime, Counted (GetByRole ''button'' (Some ''Connect'')), Did (WaitForTimeout 400), ReadTime]\<rparr>"
  have a: "resolve_lingering 16 sim_api sim_args initial_locals ?w = Return (Next (), initial_locals) ?w1"
    by (simp add: inner_eval modal_eval sim_eval)
  have b: "select_button 16 sim_api sim_args initial_locals ?w1 =
      Return (Next (Nth (GetByRole ''button'' (Some ''Connect'')) 0, ''a1'', 2), initial_locals) ?w2"
    by (simp add: inner_eval sim_eval eval_nat_numeral)
  have c: "click_selected sim_api sim_args (Nth (GetByRole ''button'' (Some ''Connect'')) 0) ''a1'' initial_locals ?w2 =
      Return (Next (), initial_locals) ?w3"
    by (simp add: inner_eval sim_eval)
  have d: "process_invite_modal 16 sim_api (send_request_label sim_args)
      (py_trunc (modal_timeout_seconds sim_args * 1000)) ?w3 = Return No_modal ?w4"
    by (simp add: modal_eval sim_eval)
  have f: "No_modal \<notin> failed_statuses" by (simp add: failed_statuses_def)
  have e: "wait_for_connect_change 16 sim_api (button_label sim_args) 2 6000 ?w4 = Return False ?w5"
    by (simp add: wait_for_connect_change_def eval_nat_numeral sim_eval)
  have m: "max_clicks sim_args = 0" by (simp add: sim_args_def)
  have dl: "delay sim_api sim_args ?w5 = \<lparr>env = sim_page\<lparr>sim_buttons := [Some ''a1'', Some ''a2''], sim_click_removes := False, sim_clock := 116\<rparr>, trace = [Counted (GetByRole ''dialog'' None), Counted (GetByRole ''button'' (Some ''Connect'')), GotAttribute (Nth (GetByRole ''button'' (Some ''Connect'')) 0) ''data-pmi-helper-id'', Did (ScrollIntoView (Nth (GetByRole ''button'' (Some ''Connect'')) 0) 5000), Did (Click (Nth (GetByRole ''button'' (Some ''Connect'')) 0) 10000), Did (WaitForVisible (First (GetByRole ''button'' (Some ''Send Request''))) 8000), ReadTime, ReadTime, Counted (GetByRole ''button'' (Some ''Connect'')), Did (WaitForTimeout 400), ReadTime, Counted (GetByRole ''button'' (Some ''Connect'')), Did (WaitForTimeout 400), ReadTime, Counted (GetByRole ''button'' (Some ''Connect'')), Did (WaitForTimeout 400), ReadTime, Counted (GetByRole ''button'' (Some ''Connect'')), Did (WaitForTimeout 400), ReadTime, Counted (GetByRole ''button'' (Some ''Connect'')), Did (WaitForTimeout 400), ReadTime, Counted (GetByRole ''button'' (Some ''Connect'')), Did (WaitForTimeout 400), ReadTime, Counted (GetByRole ''button'' (Some ''Connect'')), Did (WaitForTimeout 400), ReadTime, Counted (GetByRole ''button'' (Some ''Connect'')), Did (WaitForTimeout 400), ReadTime, Counted (GetByRole ''button'' (Some ''Connect'')), Did (WaitForTimeout 400), ReadTime, Counted (GetByRole ''button'' (Some ''Connect'')), Did (WaitForTimeout 400), ReadTime, Counted (GetByRole ''button'' (Some ''Connect'')), Did (WaitForTimeout 400), ReadTime, Counted (GetByRole ''button'' (Some ''Connect'')), Did (WaitForTimeout 400), ReadTime, Counted (GetByRole ''button'' (Some ''Connect'')), Did (WaitForTimeout 400), ReadTime, Counted (GetByRole ''button'' (Some ''Connect'')), Did (WaitForTimeout 400), ReadTime, Counted (GetByRole ''button'' (Some ''Connect'')), Did (WaitForTimeout 400), ReadTime, Slept 2]\<rparr>"
    by (simp add: sim_eval)
  from click_counted_without_confirmation [OF a b c d f e]
  have "inner_body 16 sim_api sim_args initial_locals ?w =
      Return (Continue, initial_locals\<lparr>total_clicked := total_clicked initial_locals + 1,
                                         page_clicks := page_clicks initial_locals + 1\<rparr>)
        (delay sim_api sim_args ?w5)"
    by (simp add: m)
  then have "inner_body 16 sim_api sim_args initial_locals ?w =
      Return (Continue, initial_locals\<lparr>total_clicked := 1, page_clicks := 1\<rparr>) (\<lparr>env = sim_page\<lparr>sim_buttons := [Some ''a1'', Some ''a2''], sim_click_removes := False, sim_clock := 116\<rparr>, trace = [Counted (GetByRole ''dialog'' None), Counted (GetByRole ''button'' (Some ''Connect'')), GotAttribute (Nth (GetByRole ''button'' (Some ''Connect'')) 0) ''data-pmi-helper-id'', Did (ScrollIntoView (Nth (GetByRole ''button'' (Some ''Connect'')) 0) 5000), Did (Click (Nth (GetByRole ''button'' (Some ''Connect'')) 0) 10000), Did (WaitForVisible (First (GetByRole ''button'' (Some ''Send Request''))) 8000), ReadTime, ReadTime, Counted (GetByRole ''button'' (Some ''Connect'')), Did (WaitForTimeout 400), ReadTime, Counted (GetByRole ''button'' (Some ''Connect'')), Did (WaitForTimeout 400), ReadTime, Counted (GetByRole ''button'' (Some ''Connect'')), Did (WaitForTimeout 400), ReadTime, Counted (GetByRole ''button'' (Some ''Connect'')), Did (WaitForTimeout 400), ReadTime, Counted (GetByRole ''button'' (Some ''Connect'')), Did (WaitForTimeout 400), ReadTime, Counted (GetByRole ''button'' (Some ''Connect'')), Did (WaitForTimeout 400), ReadTime, Counted (GetByRole ''button'' (Some ''Connect'')), Did (WaitForTimeout 400), ReadTime, Counted (GetByRole ''button'' (Some ''Connect'')), Did (WaitForTimeout 400), ReadTime, Counted (GetByRole ''button'' (Some ''Connect'')), Did (WaitForTimeout 400), ReadTime, Counted (GetByRole ''button'' (Some ''Connect'')), Did (WaitForTimeout 400), ReadTime, Counted (GetByRole ''button'' (Some ''Connect'')), Did (WaitForTimeout 400), ReadTime, Counted (GetByRole ''button'' (Some ''Connect'')), Did (WaitForTimeout 400), ReadTime, Counted (GetByRole ''button'' (Some ''Connect'')), Did (WaitForTimeout 400), ReadTime, Counted (GetByRole ''button'' (Some ''Connect'')), Did (WaitForTimeout 400), ReadTime, Counted (GetByRole ''button'' (Some ''Connect'')), Did (WaitForTimeout 400), ReadTime, Slept 2]\<rparr>)"
    unfolding dl by (simp add: initial_locals_def)
  with e show ?thesis by simp
qed

theorem max_clicks_stops_run_witness:
  "wait_for_connect_change 1 sim_api (button_label (sim_args\<lparr>max_clicks := 1\<rparr>)) 2 6000
       (\<lparr>env = sim_page\<lparr>sim_buttons := [Some ''a2''], sim_clock := 108\<rparr>, trace = [Counted (GetByRole ''dialog'' None), Counted (GetByRole ''button'' (Some ''Connect'')), GotAttribute (Nth (GetByRole ''button'' (Some ''Connect'')) 0) ''data-pmi-helper-id'', Did (ScrollIntoView (Nth (GetByRole ''button'' (Some ''Connect'')) 0) 5000), Did (Click (Nth (GetByRole ''button'' (Some ''Connect'')) 0) 10000), Did (WaitForVisible (First (GetByRole ''button'' (Some ''Send Request''))) 8000)]\<rparr>) =
     Return True
       (\<lparr>env = sim_page\<lparr>sim_buttons := [Some ''a2''], sim_clock := 108\<rparr>, trace = [Counted (GetByRole ''dialog'' None), Counted (GetByRole ''button'' (Some ''Connect'')), GotAttribute (Nth (GetByRole ''button'' (Some ''Connect'')) 0) ''data-pmi-helper-id'', Did (ScrollIntoView (Nth (GetByRole ''button'' (Some ''Connect'')) 0) 5000), Did (Click (Nth (GetByRole ''button'' (Some ''Connect'')) 0) 10000), Did (WaitForVisible (First (GetByRole ''button'' (Some ''Send Request''))) 8000), ReadTime, ReadTime, Counted (GetByRole ''button'' (Some ''Connect''))]\<rparr>) \<and>
   inner_loop (Suc 1) sim_api (sim_args\<lparr>max_clicks := 1\<rparr>) (initial_locals\<lparr>pages_processed := 1\<rparr>) (start (sim_page\<lparr>sim_buttons := [Some ''a1'', Some ''a2'']\<rparr>)) =
     Return (initial_locals\<lparr>pages_processed := 1, total_clicked := 1, page_clicks := 1, stop := True\<rparr>)
       (\<lparr>env = sim_page\<lparr>sim_buttons := [Some ''a2''], sim_clock := 108\<rparr>, trace = [Counted (GetByRole ''dialog'' None), Counted (GetByRole ''button'' (Some ''Connect'')), GotAttribute (Nth (GetByRole ''button'' (Some ''Connect'')) 0) ''data-pmi-helper-id'', Did (ScrollIntoView (Nth (GetByRole ''button'' (Some ''Connect'')) 0) 5000), Did (Click (Nth (GetByRole ''button'' (Some ''Connect'')) 0) 10000), Did (WaitForVisible (First (GetByRole ''button'' (Some ''Send Request''))) 8000), ReadTime, ReadTime, Counted (GetByRole ''button'' (Some ''Connect''))]\<rparr>) \<and>
   page_finish sim_api generic_urllib (sim_args\<lparr>max_clicks := 1\<rparr>) (Some 3) (initial_locals\<lparr>pages_processed := 1, total_clicked := 1, page_clicks := 1, stop := True\<rparr>)
       (\<lparr>env = sim_page\<lparr>sim_buttons := [Some ''a2''], sim_clock := 108\<rparr>, trace = [Counted (GetByRole ''dialog'' None), Counted (GetByRole ''button'' (Some ''Connect'')), GotAttribute (Nth (GetByRole ''button'' (Some ''Connect'')) 0) ''data-pmi-helper-id'', Did (ScrollIntoView (Nth (GetByRole ''button'' (Some ''Connect'')) 0) 5000), Did (Click (Nth (GetByRole ''button'' (Some ''Connect'')) 0) 10000), Did (WaitForVisible (First (GetByRole ''button'' (Some ''Send Request''))) 8000), ReadTime, ReadTime, Counted (GetByRole ''button'' (Some ''Connect''))]\<rparr>) =
     Return (Break, initial_locals\<lparr>pages_processed := 1, total_clicked := 1, page_clicks := 1, stop := True\<rparr>)
       (\<lparr>env = sim_page\<lparr>sim_buttons := [Some ''a2''], sim_clock := 108\<rparr>, trace = [Counted (GetByRole ''dialog'' None), Counted (GetByRole ''button'' (Some ''Connect'')), GotAttribute (Nth (GetByRole ''button'' (Some ''Connect'')) 0) ''data-pmi-helper-id'', Did (ScrollIntoView (Nth (GetByRole ''button'' (Some ''Connect'')) 0) 5000), Did (Click (Nth (GetByRole ''button'' (Some ''Connect'')) 0) 10000), Did (WaitForVisible (First (GetByRole ''button'' (Some ''Send Request''))) 8000), ReadTime, ReadTime, Counted (GetByRole ''button'' (Some ''Connect''))]\<rparr>) \<and>
   main 3 sim_api generic_urllib (sim_args\<lparr>max_clicks := 1\<rparr>) (start (sim_page\<lparr>sim_buttons := [Some ''a1'', Some ''a2'']\<rparr>)) =
     Return (initial_locals\<lparr>pages_processed := 1, total_clicked := 1, page_clicks := 1, stop := True\<rparr>)
       (\<lparr>env = sim_page\<lparr>sim_buttons := [Some ''a2''], sim_clock := 108\<rparr>, trace = [Counted (GetByRole ''dialog'' None), Counted (GetByRole ''button'' (Some ''Connect'')), GotAttribute (Nth (GetByRole ''button'' (Some ''Connect'')) 0) ''data-pmi-helper-id'', Did (ScrollIntoView (Nth (GetByRole ''button'' (Some ''Connect'')) 0) 5000), Did (Click (Nth (GetByRole ''button'' (Some ''Connect'')) 0) 10000), Did (WaitForVisible (First (GetByRole ''button'' (Some ''Send Request''))) 8000), ReadTime, ReadTime, Counted (GetByRole ''button'' (Some ''Connect''))]\<rparr>)"
proof -
  let ?a = "sim_args\<lparr>max_clicks := 1\<rparr>"
  let ?s = "initial_locals\<lparr>pages_processed := 1\<rparr>"
  let ?sf = "initial_locals\<lparr>pages_processed := 1, total_clicked := 1, page_clicks := 1, stop := True\<rparr>"
  let ?w = "start (sim_page\<lparr>sim_buttons := [Some ''a1'', Some ''a2'']\<rparr>)"
  let ?w1 = "\<lparr>env = sim_page\<lparr>sim_buttons := [Some ''a1'', Some ''a2'']\<rparr>, trace = [Counted (GetByRole ''dialog'' None)]\<rparr>"
  let ?w2 = "\<lparr>env = sim_page\<lparr>sim_buttons := [Some ''a1'', Some ''a2'']\<rparr>, trace = [Counted (GetByRole ''dialog'' None), Counted (GetByRole ''button'' (Some ''Connect'')), GotAttribute (Nth (GetByRole ''button'' (Some ''Connect'')) 0) ''data-pmi-helper-id'']\<rparr>"
  let ?w3 = "\<lparr>env = sim_page\<lparr>sim_buttons := [Some ''a2'']\<rparr>, trace = [Counted (GetByRole ''dialog'' None), Counted (GetByRole ''button'' (Some ''Connect'')), GotAttribute (Nth (GetByRole ''button'' (Some ''Connect'')) 0) ''data-pmi-helper-id'', Did (ScrollIntoView (Nth (GetByRole ''button'' (Some ''Connect'')) 0) 5000), Did (Click (Nth (GetByRole ''button'' (Some ''Connect'')) 0) 10000)]\<rparr>"
  let ?w4 = "\<lparr>env = sim_page\<lparr>sim_buttons := [Some ''a2''], sim_clock := 108\<rparr>, trace = [Counted (GetByRole ''dialog'' None), Counted (GetByRole ''button'' (Some ''Connect'')), GotAttribute (Nth (GetByRole ''button'' (Some ''Connect'')) 0) ''data-pmi-helper-id'', Did (ScrollIntoView (Nth (GetByRole ''button'' (Some ''Connect'')) 0) 5000), Did (Click (Nth (GetByRole ''button'' (Some ''Connect'')) 0) 10000), Did (WaitForVisible (First (GetByRole ''button'' (Some ''Send Request''))) 8000)]\<rparr>"
  let ?w5 = "\<lparr>env = sim_page\<lparr>sim_buttons := [Some ''a2''], sim_clock := 108\<rparr>, trace = [Counted (GetByRole ''dialog'' None), Counted (GetByRole ''button'' (Some ''Connect'')), GotAttribute (Nth (GetByRole ''button'' (Some ''Connect'')) 0) ''data-pmi-helper-id'', Did (ScrollIntoView (Nth (GetByRole ''button'' (Some ''Connect'')) 0) 5000), Did (Click (Nth (GetByRole ''button'' (Some ''Connect'')) 0) 10000), Did (WaitForVisible (First (GetByRole ''button'' (Some ''Send Request''))) 8000), ReadTime, ReadTime, Counted (GetByRole ''button'' (Some ''Connect''))]\<rparr>"
  have a: "resolve_lingering 1 sim_api ?a ?s ?w = Return (Next (), ?s) ?w1"
    by (simp add: inner_eval modal_eval sim_eval)
  have b: "select_button 1 sim_api ?a ?s ?w1 = Return (Next (Nth (GetByRole ''button'' (Some ''Connect'')) 0, ''a1'', 2), ?s) ?w2"
    by (simp add: inner_eval sim_eval eval_nat_numeral)
  have c: "click_selected sim_api ?a (Nth (GetByRole ''button'' (Some ''Connect'')) 0) ''a1'' ?s ?w2 = Return (Next (), ?s) ?w3"
    by (simp add: inner_eval sim_eval)
  have d: "process_invite_modal 1 sim_api (send_request_label ?a)
      (py_trunc (modal_timeout_seconds ?a * 1000)) ?w3 = Return No_modal ?w4"
    by (simp add: modal_eval sim_eval)
  have f: "No_modal \<notin> failed_statuses" by (simp add: failed_statuses_def)
  have e: "wait_for_connect_change 1 sim_api (button_label ?a) 2 6000 ?w4 = Return True ?w5"
    by (simp add: wait_for_connect_change_def sim_eval)
  have m: "max_clicks ?a \<noteq> 0" by simp
  have l: "max_clicks ?a \<le> total_clicked ?s + 1" by (simp add: initial_locals_def)
  have sf: "?sf = ?s\<lparr>total_clicked := total_clicked ?s + 1, page_clicks := page_clicks ?s + 1, stop := True\<rparr>"
    by (simp add: initial_locals_def)
  note th = max_clicks_stops_run [OF a b c d f e m l sf, of generic_urllib "Some 3"]
  from th have il: "inner_loop (Suc 1) sim_api ?a ?s ?w = Return ?sf ?w5" by blast
  from th have pf: "page_finish sim_api generic_urllib ?a (Some 3) ?sf ?w5 = Return (Break, ?sf) ?w5"
    by blast
  have s0: "initial_locals\<lparr>pages_processed := pages_processed initial_locals + 1, page_clicks := 0,
              skipped_this_page := 0, skipped_button_ids := {}\<rparr> = ?s"
    by (simp add: initial_locals_def)
  from th have "inner_loop (Suc 1) sim_api ?a
        (initial_locals\<lparr>pages_processed := pages_processed initial_locals + 1, page_clicks := 0,
              skipped_this_page := 0, skipped_button_ids := {}\<rparr>) ?w = Return ?sf ?w5 \<longrightarrow>
      page_cycle (Suc 1) sim_api generic_urllib ?a (Some 3) initial_locals ?w = Return (Break, ?sf) ?w5"
    by blast
  with il have pc: "page_cycle (Suc 1) sim_api generic_urllib ?a (Some 3) initial_locals ?w
      = Return (Break, ?sf) ?w5"
    unfolding s0 by simp
  have g: "get_page_number_from_url generic_urllib ''https://example.com/members?page=3'' = Some 3"
    by code_simp
  have u: "page_url sim_api (env ?w) = ''https://example.com/members?page=3''"
    by (simp add: sim_eval)
  have rc: "rollback_check sim_api generic_urllib ?a initial_locals ?w = Return (Next (Some 3)) ?w"
    unfolding rollback_check_def u g by (simp add: initial_locals_def)
  have cl: "\<not> page_is_closed sim_api (env ?w)" by (simp add: sim_eval)
  have mb: "main_body (Suc 1) sim_api generic_urllib ?a initial_locals ?w = Return (Break, ?sf) ?w5"
    using cl by (simp only: main_body_def rc pc seq_simps flow.case if_False)
  from th have "main_body (Suc 1) sim_api generic_urllib ?a initial_locals ?w = Return (Break, ?sf) ?w5 \<longrightarrow>
      main_loop (Suc (Suc 1)) sim_api generic_urllib ?a initial_locals ?w = Return ?sf ?w5"
    by blast
  with mb have "main_loop (Suc (Suc 1)) sim_api generic_urllib ?a initial_locals ?w = Return ?sf ?w5"
    by simp
  moreover have "Suc (Suc 1) = 3" by simp
  ultimately have mn: "main 3 sim_api generic_urllib ?a ?w = Return ?sf ?w5"
    by (simp only: main_def)
  from e il pf mn show ?thesis by simp
qed


end
